theory Spec2Isabelle
  imports Complex_Main
begin

section \<open>The useSoundEffect hook: data model\<close>

text \<open>
  The development embeds \<^verbatim>\<open>packages/useSoundEffect/src/index.ts\<close>.
  JavaScript numbers are modelled as reals (no NaN, no rounding).  An
  \<^verbatim>\<open>HTMLAudioElement\<close> is a plain object of the host: a write to one of its
  fields stores the value given, \<^verbatim>\<open>pause()\<close> sets \<open>paused\<close>, \<^verbatim>\<open>play()\<close>
  clears it.  A browser refuses a volume outside [0,1] with an exception; the hook never
  writes one (every write is clamped, or is 0, or is a target that its callers have
  clamped), so the two hosts differ on no state that the hook can reach.  Elements and timers live in tables of the host, addressed by the
  handles that the refs of the hook hold, so that a closure that still holds a
  superseded element is distinguished from the current one.  A timer handle is an
  object, so the test \<^verbatim>\<open>if (ref.current)\<close> is the test that the ref is not null.
  React state (\<open>isPlaying\<close>, \<open>currentVolume\<close>) holds the value last given to its
  setter, and the functions of the hook read it from the state; the effects run once,
  when the hook is mounted, and their cleanups when it is unmounted.  The re-run of the
  random-playback effect that React performs after \<open>currentVolume\<close> has changed is not
  part of \<^verbatim>\<open>adjustVolume\<close>: it is a \<^verbatim>\<open>stopRandom()\<close> followed by a
  \<^verbatim>\<open>startRandom()\<close>, both of which are actions of the event loop below.
\<close>

text \<open>\<^verbatim>\<open>SoundEffectOptions\<close>: every field is optional.\<close>

record options =
  opt_volume :: "real option"
  opt_preload :: "bool option"
  opt_loop :: "bool option"
  opt_playRandomly :: "bool option"
  opt_minInterval :: "real option"
  opt_maxInterval :: "real option"
  opt_autoplay :: "bool option"
  opt_startFrom :: "real option"
  opt_stopAt :: "real option"
  opt_transitionStart :: "real option"
  opt_transitionEnd :: "real option"

text \<open>The constants bound by the destructuring at the head of the hook.\<close>

record config =
  soundUrl :: string
  initialVolume :: real
  preload :: bool
  loop :: bool
  playRandomly :: bool
  minInterval :: real
  maxInterval :: real
  autoplay :: bool
  startFrom :: real
  stopAt :: "real option"
  transitionStart :: real
  transitionEnd :: real

definition or_default :: "'a option \<Rightarrow> 'a \<Rightarrow> 'a" where
  "or_default v d = (case v of None \<Rightarrow> d | Some x \<Rightarrow> x)"

definition destructure :: "string \<Rightarrow> options \<Rightarrow> config" where
  "destructure url opts =
     \<lparr> soundUrl = url,
       initialVolume = or_default (opt_volume opts) 1,
       preload = or_default (opt_preload opts) True,
       loop = or_default (opt_loop opts) False,
       playRandomly = or_default (opt_playRandomly opts) False,
       minInterval = or_default (opt_minInterval opts) 5000,
       maxInterval = or_default (opt_maxInterval opts) 15000,
       autoplay = or_default (opt_autoplay opts) False,
       startFrom = or_default (opt_startFrom opts) 0,
       stopAt = opt_stopAt opts,
       transitionStart = or_default (opt_transitionStart opts) 0,
       transitionEnd = or_default (opt_transitionEnd opts) 0 \<rparr>"

text \<open>An audio element of the host.  \<open>listeners\<close> records that the three
  \<^verbatim>\<open>addEventListener\<close> calls of \<^verbatim>\<open>playSoundEffect\<close> were made on it.\<close>

record audio =
  src :: string
  volume :: real
  currentTime :: real
  el_loop :: bool
  el_preload :: string
  paused :: bool
  listeners :: bool

definition new_Audio :: "string \<Rightarrow> audio" where
  "new_Audio url =
     \<lparr> src = url, volume = 1, currentTime = 0, el_loop = False,
       el_preload = '''', paused = True, listeners = False \<rparr>"

text \<open>The only function ever passed as \<^verbatim>\<open>onComplete\<close>:
  \<^verbatim>\<open>() => { audio.pause(); cleanup(); }\<close>, with the element it captured.\<close>

datatype callback = PauseAndCleanup nat

text \<open>The closure of the \<^verbatim>\<open>setInterval\<close> callback of \<^verbatim>\<open>applyFade\<close>.\<close>

record fade =
  fd_audio :: nat
  targetVolume :: real
  startVolume :: real
  volumeStep :: real
  currentStep :: nat
  onComplete :: "callback option"

text \<open>A live timer of the host: a repeating one with its closure and period, or a
  single-shot one with its delay (its callback is always the one of
  \<^verbatim>\<open>scheduleNextPlay\<close>).  \<^verbatim>\<open>clearTimeout\<close> and \<^verbatim>\<open>clearInterval\<close> remove a
  timer from the one table.\<close>

datatype timer = Interval fade real | Timeout real

text \<open>What the hook asks of the host, in the order it asks.\<close>

datatype event =
    NewAudio nat
  | Pause nat
  | PlayCall nat
  | SetTimer nat
  | ClearTimer nat
  | VolumeWrite nat real
  | FadeWrite nat real
  | Invoke callback
  | ConsoleError

record hook =
  audioRef :: "nat option"
  intervalRef :: "nat option"
  fadeIntervalRef :: "nat option"
  isMountedRef :: bool
  isPlaying :: bool
  currentVolume :: real
  audios :: "nat \<Rightarrow> audio"
  next_audio :: nat
  timers :: "nat \<Rightarrow> timer option"
  next_timer :: nat
  trace :: "event list"

text \<open>A thrown JavaScript value.  A computation either returns the state it
  reached (\<open>Inr\<close>) or throws from the state it reached (\<open>Inl\<close>).\<close>

datatype exn = Exception

type_synonym outcome = "(exn \<times> hook) + hook"

fun state_of :: "outcome \<Rightarrow> hook" where
  "state_of (Inl (e, st)) = st"
| "state_of (Inr st) = st"

section \<open>Host primitives\<close>

definition clamp01 :: "real \<Rightarrow> real" where
  "clamp01 v = min 1 (max 0 v)"

definition emit :: "event \<Rightarrow> hook \<Rightarrow> hook" where
  "emit e st = st\<lparr>trace := trace st @ [e]\<rparr>"

definition upd_audio :: "nat \<Rightarrow> (audio \<Rightarrow> audio) \<Rightarrow> hook \<Rightarrow> hook" where
  "upd_audio a f st = st\<lparr>audios := (audios st)(a := f (audios st a))\<rparr>"

definition create_audio :: "string \<Rightarrow> hook \<Rightarrow> nat \<times> hook" where
  "create_audio url st =
     (let a = next_audio st
      in (a, emit (NewAudio a)
               (st\<lparr>audios := (audios st)(a := new_Audio url), next_audio := Suc a\<rparr>)))"

definition pause :: "nat \<Rightarrow> hook \<Rightarrow> hook" where
  "pause a st = emit (Pause a) (upd_audio a (\<lambda>x. x\<lparr>paused := True\<rparr>) st)"

definition host_play :: "nat \<Rightarrow> hook \<Rightarrow> hook" where
  "host_play a st = emit (PlayCall a) (upd_audio a (\<lambda>x. x\<lparr>paused := False\<rparr>) st)"

definition set_volume :: "nat \<Rightarrow> real \<Rightarrow> hook \<Rightarrow> hook" where
  "set_volume a v st = emit (VolumeWrite a v) (upd_audio a (\<lambda>x. x\<lparr>volume := v\<rparr>) st)"

definition fade_write :: "nat \<Rightarrow> real \<Rightarrow> hook \<Rightarrow> hook" where
  "fade_write a v st = emit (FadeWrite a v) (upd_audio a (\<lambda>x. x\<lparr>volume := v\<rparr>) st)"

definition clear_timer :: "nat \<Rightarrow> hook \<Rightarrow> hook" where
  "clear_timer t st = emit (ClearTimer t) (st\<lparr>timers := (timers st)(t := None)\<rparr>)"

definition set_timer :: "timer \<Rightarrow> hook \<Rightarrow> nat \<times> hook" where
  "set_timer tm st =
     (let t = next_timer st
      in (t, emit (SetTimer t)
               (st\<lparr>timers := (timers st)(t \<mapsto> tm), next_timer := Suc t\<rparr>)))"

section \<open>The functions of the hook\<close>

definition cleanup :: "hook \<Rightarrow> hook" where
  "cleanup st =
     (let st1 = (case audioRef st of
                   Some a \<Rightarrow> (pause a st)\<lparr>audioRef := None\<rparr>
                 | None \<Rightarrow> st);
          st2 = (case intervalRef st1 of
                   Some t \<Rightarrow> (clear_timer t st1)\<lparr>intervalRef := None\<rparr>
                 | None \<Rightarrow> st1);
          st3 = (case fadeIntervalRef st2 of
                   Some t \<Rightarrow> (clear_timer t st2)\<lparr>fadeIntervalRef := None\<rparr>
                 | None \<Rightarrow> st2)
      in st3\<lparr>isPlaying := False\<rparr>)"

definition stopSoundEffect :: "hook \<Rightarrow> hook" where
  "stopSoundEffect st = cleanup st"

definition run_callback :: "callback option \<Rightarrow> hook \<Rightarrow> hook" where
  "run_callback cb st =
     (case cb of
        None \<Rightarrow> st
      | Some (PauseAndCleanup a) \<Rightarrow> cleanup (pause a (emit (Invoke (PauseAndCleanup a)) st)))"

definition steps :: nat where
  "steps = 50"

definition applyFade :: "nat \<Rightarrow> real \<Rightarrow> real \<Rightarrow> callback option \<Rightarrow> hook \<Rightarrow> hook" where
  "applyFade a target duration cb st =
     (if duration \<le> 0 then run_callback cb (fade_write a target st)
      else
        let start = volume (audios st a);
            volumeDelta = target - start;
            stepDuration = (duration * 1000) / real steps;
            vstep = volumeDelta / real steps;
            st1 = (case fadeIntervalRef st of
                     Some t \<Rightarrow> clear_timer t st
                   | None \<Rightarrow> st);
            (t, st2) = set_timer
                         (Interval \<lparr> fd_audio = a, targetVolume = target, startVolume = start,
                                     volumeStep = vstep, currentStep = 0, onComplete = cb \<rparr>
                                   stepDuration) st1
        in st2\<lparr>fadeIntervalRef := Some t\<rparr>)"

text \<open>The host fires the repeating timer \<open>t\<close>: one run of the callback given to
  \<^verbatim>\<open>setInterval\<close>.  A timer that is not in the table never fires.\<close>

definition fade_tick :: "nat \<Rightarrow> hook \<Rightarrow> hook" where
  "fade_tick t st =
     (case timers st t of
        Some (Interval c period) \<Rightarrow>
          (let k = Suc (currentStep c);
               st1 = st\<lparr>timers := (timers st)(t \<mapsto> Interval (c\<lparr>currentStep := k\<rparr>) period)\<rparr>
           in if k \<ge> steps then
                let st2 = fade_write (fd_audio c) (targetVolume c) st1;
                    st3 = (case fadeIntervalRef st2 of
                             Some t' \<Rightarrow> (clear_timer t' st2)\<lparr>fadeIntervalRef := None\<rparr>
                           | None \<Rightarrow> st2)
                in run_callback (onComplete c) st3
              else fade_write (fd_audio c)
                     (clamp01 (startVolume c + volumeStep c * real k)) st1)
      | _ \<Rightarrow> st)"

text \<open>Where the host makes the body of the \<^verbatim>\<open>try\<close> block throw, if anywhere:
  the \<^verbatim>\<open>Audio\<close> constructor, the assignment to \<^verbatim>\<open>currentTime\<close>, or the call of
  \<^verbatim>\<open>play()\<close>.\<close>

datatype host = NoThrow | ThrowNewAudio | ThrowSetTime | ThrowPlay

definition play_try :: "config \<Rightarrow> host \<Rightarrow> hook \<Rightarrow> outcome" where
  "play_try cfg h st =
     (if h = ThrowNewAudio then Inl (Exception, st)
      else
        let (a, st1) = create_audio (soundUrl cfg) st;
            st2 = st1\<lparr>audioRef := Some a\<rparr>
        in if h = ThrowSetTime then Inl (Exception, st2)
           else
             let st3 = upd_audio a (\<lambda>x. x\<lparr>currentTime := startFrom cfg, el_loop := loop cfg\<rparr>) st2;
                 target = clamp01 (currentVolume st3);
                 st4 = set_volume a (if transitionStart cfg > 0 then 0 else target) st3;
                 st5 = st4\<lparr>isPlaying := True\<rparr>;
                 st6 = upd_audio a (\<lambda>x. x\<lparr>listeners := True\<rparr>) st5
             in if h = ThrowPlay then Inl (Exception, st6)
                else
                  let st7 = host_play a st6
                  in Inr (if transitionStart cfg > 0
                          then applyFade a target (transitionStart cfg) None st7
                          else st7))"

definition playSoundEffect :: "config \<Rightarrow> host \<Rightarrow> hook \<Rightarrow> outcome" where
  "playSoundEffect cfg h st =
     (if \<not> isMountedRef st then Inr st
      else
        case play_try cfg h (cleanup st) of
          Inr st' \<Rightarrow> Inr st'
        | Inl (e, st') \<Rightarrow> Inr (cleanup (emit ConsoleError st')))"

text \<open>The state after a call of \<^verbatim>\<open>play\<close>, whichever way it ends.\<close>

definition play :: "config \<Rightarrow> host \<Rightarrow> hook \<Rightarrow> hook" where
  "play cfg h st = state_of (playSoundEffect cfg h st)"

text \<open>The listeners that \<^verbatim>\<open>playSoundEffect\<close> registers on the element \<open>a\<close> it
  created.  \<^verbatim>\<open>!stopAt\<close> holds for an absent \<open>stopAt\<close> and for 0.\<close>

definition handleTimeUpdate :: "config \<Rightarrow> nat \<Rightarrow> hook \<Rightarrow> hook" where
  "handleTimeUpdate cfg a st =
     (case stopAt cfg of
        None \<Rightarrow> st
      | Some stop \<Rightarrow>
          if stop = 0 then st
          else
            let time = currentTime (audios st a);
                shouldFadeOut = (transitionEnd cfg > 0 \<and> time \<ge> stop - transitionEnd cfg);
                shouldStop = (time \<ge> stop)
            in if shouldStop then cleanup (pause a st)
               else if shouldFadeOut \<and> fadeIntervalRef st = None
               then applyFade a 0 (transitionEnd cfg) (Some (PauseAndCleanup a)) st
               else st)"

definition on_ended :: "config \<Rightarrow> nat \<Rightarrow> hook \<Rightarrow> hook" where
  "on_ended cfg a st = (if audioRef st = Some a \<and> \<not> loop cfg then cleanup st else st)"

definition on_error :: "hook \<Rightarrow> hook" where
  "on_error st = cleanup (emit ConsoleError st)"

definition on_play_rejected :: "hook \<Rightarrow> hook" where
  "on_play_rejected st = cleanup (emit ConsoleError st)"

text \<open>\<open>r\<close> is the value of \<^verbatim>\<open>Math.random()\<close>.\<close>

definition scheduleNextPlay :: "config \<Rightarrow> real \<Rightarrow> hook \<Rightarrow> hook" where
  "scheduleNextPlay cfg r st =
     (let randomDelay = of_int \<lfloor>r * (maxInterval cfg - minInterval cfg + 1)\<rfloor> + minInterval cfg;
          (t, st1) = set_timer (Timeout randomDelay) st
      in st1\<lparr>intervalRef := Some t\<rparr>)"

definition stopRandomPlayback :: "hook \<Rightarrow> hook" where
  "stopRandomPlayback st =
     (case intervalRef st of
        Some t \<Rightarrow> (clear_timer t st)\<lparr>intervalRef := None\<rparr>
      | None \<Rightarrow> st)"

definition startRandomPlayback :: "config \<Rightarrow> real \<Rightarrow> hook \<Rightarrow> hook" where
  "startRandomPlayback cfg r st =
     (if \<not> isMountedRef st then st
      else scheduleNextPlay cfg r (stopRandomPlayback st))"

text \<open>The host fires the single-shot timer \<open>t\<close>: the callback of
  \<^verbatim>\<open>scheduleNextPlay\<close> runs, and an exception of \<^verbatim>\<open>playSoundEffect\<close> would skip
  the rescheduling.\<close>

definition timeout_fire :: "config \<Rightarrow> nat \<Rightarrow> host \<Rightarrow> real \<Rightarrow> hook \<Rightarrow> hook" where
  "timeout_fire cfg t h r st =
     (case timers st t of
        Some (Timeout d) \<Rightarrow>
          (let st1 = st\<lparr>timers := (timers st)(t := None)\<rparr>
           in if isMountedRef st1 then
                (case playSoundEffect cfg h st1 of
                   Inr st2 \<Rightarrow> scheduleNextPlay cfg r st2
                 | Inl (e, st2) \<Rightarrow> st2)
              else st1)
      | _ \<Rightarrow> st)"

definition adjustVolume :: "real \<Rightarrow> hook \<Rightarrow> real \<times> hook" where
  "adjustVolume newVolume st =
     (let clampedVolume = clamp01 newVolume;
          st1 = st\<lparr>currentVolume := clampedVolume\<rparr>;
          st2 = (case audioRef st1 of
                   Some a \<Rightarrow> set_volume a clampedVolume st1
                 | None \<Rightarrow> st1)
      in (clampedVolume, st2))"

section \<open>Construction, effects and the event loop\<close>

text \<open>The state that the first render creates: the three refs are null, the
  mounted flag is set, and the two pieces of React state have their initial
  values.  The host has no element and no timer yet.\<close>

definition initial :: "config \<Rightarrow> hook" where
  "initial cfg =
     \<lparr> audioRef = None, intervalRef = None, fadeIntervalRef = None,
       isMountedRef = True, isPlaying = False, currentVolume = initialVolume cfg,
       audios = (\<lambda>_. new_Audio []), next_audio = 0,
       timers = (\<lambda>_. None), next_timer = 0, trace = [] \<rparr>"

text \<open>The call of the hook itself: destructuring and creation of refs and state.
  Its body has no \<^verbatim>\<open>throw\<close> and no check of the options.\<close>

definition useSoundEffect :: "string \<Rightarrow> options \<Rightarrow> outcome" where
  "useSoundEffect url opts = Inr (initial (destructure url opts))"

definition preload_effect :: "config \<Rightarrow> hook \<Rightarrow> hook" where
  "preload_effect cfg st =
     (if preload cfg \<and> audioRef st = None then
        let (a, st1) = create_audio (soundUrl cfg) st;
            st2 = set_volume a (clamp01 (initialVolume cfg)) st1;
            st3 = upd_audio a (\<lambda>x. x\<lparr>el_preload := ''auto''\<rparr>) st2
        in st3\<lparr>audioRef := Some a\<rparr>
      else st)"

definition autoplay_effect :: "config \<Rightarrow> host \<Rightarrow> hook \<Rightarrow> hook" where
  "autoplay_effect cfg h st = (if autoplay cfg then play cfg h st else st)"

definition random_effect :: "config \<Rightarrow> real \<Rightarrow> hook \<Rightarrow> hook" where
  "random_effect cfg r st =
     (if playRandomly cfg then startRandomPlayback cfg r st else stopRandomPlayback st)"

definition mounted :: "config \<Rightarrow> host \<Rightarrow> real \<Rightarrow> hook" where
  "mounted cfg h r = random_effect cfg r (autoplay_effect cfg h (preload_effect cfg (initial cfg)))"

text \<open>Unmounting runs the cleanups of the effects in the order of the effects.\<close>

definition unmount :: "hook \<Rightarrow> hook" where
  "unmount st = cleanup ((stopRandomPlayback st)\<lparr>isMountedRef := False\<rparr>)"

text \<open>Everything that can happen to a mounted hook: a call of one of the returned
  functions, or the host firing an event or a timer.  An element fires its events only
  if the listeners were registered on it, and \<^verbatim>\<open>timeupdate\<close> comes with the
  position the host has reached.\<close>

datatype action =
    Play host
  | Stop
  | StartRandom real
  | StopRandom
  | AdjustVolume real
  | TimeUpdate nat real
  | Ended nat
  | ErrorEvent nat
  | PlayRejected nat
  | FadeTick nat
  | TimeoutFire nat host real
  | Unmount

definition has_listeners :: "nat \<Rightarrow> hook \<Rightarrow> bool" where
  "has_listeners a st = (a < next_audio st \<and> listeners (audios st a))"

fun step :: "config \<Rightarrow> action \<Rightarrow> hook \<Rightarrow> hook" where
  "step cfg (Play h) st = play cfg h st"
| "step cfg Stop st = stopSoundEffect st"
| "step cfg (StartRandom r) st = startRandomPlayback cfg r st"
| "step cfg StopRandom st = stopRandomPlayback st"
| "step cfg (AdjustVolume v) st = snd (adjustVolume v st)"
| "step cfg (TimeUpdate a pos) st =
     (if has_listeners a st
      then handleTimeUpdate cfg a (upd_audio a (\<lambda>x. x\<lparr>currentTime := pos\<rparr>) st)
      else st)"
| "step cfg (Ended a) st = (if has_listeners a st then on_ended cfg a st else st)"
| "step cfg (ErrorEvent a) st = (if has_listeners a st then on_error st else st)"
| "step cfg (PlayRejected a) st = (if has_listeners a st then on_play_rejected st else st)"
| "step cfg (FadeTick t) st = fade_tick t st"
| "step cfg (TimeoutFire t h r) st = timeout_fire cfg t h r st"
| "step cfg Unmount st = unmount st"

fun run :: "config \<Rightarrow> action list \<Rightarrow> hook \<Rightarrow> hook" where
  "run cfg [] st = st"
| "run cfg (x # xs) st = run cfg xs (step cfg x st)"

section \<open>Vocabulary of the properties\<close>

text \<open>An element is live from the call of \<^verbatim>\<open>play()\<close> on it until it is paused.\<close>

definition live :: "hook \<Rightarrow> nat \<Rightarrow> bool" where
  "live st a = (\<not> paused (audios st a))"

text \<open>The invariant behind the at-most-one-session rule: an element that is live is
  the one \<open>audioRef\<close> holds.\<close>

definition session_inv :: "hook \<Rightarrow> bool" where
  "session_inv st = (\<forall>a. live st a \<longrightarrow> audioRef st = Some a)"

text \<open>Every live repeating timer is the one \<open>fadeIntervalRef\<close> holds.\<close>

definition fade_timer_inv :: "hook \<Rightarrow> bool" where
  "fade_timer_inv st =
     (\<forall>t c p. timers st t = Some (Interval c p) \<longrightarrow> fadeIntervalRef st = Some t)"

text \<open>The requests that \<^verbatim>\<open>cleanup\<close> makes of the host from a given state.\<close>

definition cleanup_events :: "hook \<Rightarrow> event list" where
  "cleanup_events st =
     (case audioRef st of Some a \<Rightarrow> [Pause a] | None \<Rightarrow> []) @
     (case intervalRef st of Some t \<Rightarrow> [ClearTimer t] | None \<Rightarrow> []) @
     (case fadeIntervalRef st of Some t \<Rightarrow> [ClearTimer t] | None \<Rightarrow> [])"

text \<open>The requests made between two states, and the order of two requests.\<close>

definition new_events :: "hook \<Rightarrow> hook \<Rightarrow> event list" where
  "new_events st st' = drop (length (trace st)) (trace st')"

definition precedes :: "event \<Rightarrow> event \<Rightarrow> event list \<Rightarrow> bool" where
  "precedes e1 e2 evs = (e2 \<in> set evs \<and> e1 \<in> set (takeWhile (\<lambda>e. e \<noteq> e2) evs))"

text \<open>\<open>n\<close> firings of the repeating timer \<open>t\<close> with nothing in between.\<close>

fun ticks :: "nat \<Rightarrow> nat \<Rightarrow> hook \<Rightarrow> hook" where
  "ticks 0 t st = st"
| "ticks (Suc n) t st = ticks n t (fade_tick t st)"

text \<open>The volume writes of the fader in a trace, in order, and the number of
  invocations of a completion callback.\<close>

fun fade_writes :: "event list \<Rightarrow> (nat \<times> real) list" where
  "fade_writes [] = []"
| "fade_writes (FadeWrite a v # es) = (a, v) # fade_writes es"
| "fade_writes (e # es) = fade_writes es"

fun invocations :: "event list \<Rightarrow> nat" where
  "invocations [] = 0"
| "invocations (Invoke cb # es) = Suc (invocations es)"
| "invocations (e # es) = invocations es"

definition fade_writes_in_range :: "event list \<Rightarrow> bool" where
  "fade_writes_in_range evs = list_all (\<lambda>(a, v). 0 \<le> v \<and> v \<le> 1) (fade_writes evs)"

text \<open>A fade is in progress: its timer is live with closure \<open>c\<close> and period \<open>p\<close>, and
  \<open>fadeIntervalRef\<close> holds it.\<close>

definition fading :: "nat \<Rightarrow> fade \<Rightarrow> real \<Rightarrow> hook \<Rightarrow> bool" where
  "fading t c p st = (timers st t = Some (Interval c p) \<and> fadeIntervalRef st = Some t)"

text \<open>The value that the callback of the timer writes on the tick that takes
  \<open>currentStep\<close> to \<open>k\<close>; the number of ticks until the timer clears itself; the writes
  of the first \<open>n\<close> ticks.\<close>

definition fade_value :: "fade \<Rightarrow> nat \<Rightarrow> real" where
  "fade_value c k =
     (if k \<ge> steps then targetVolume c
      else clamp01 (startVolume c + volumeStep c * real k))"

definition remaining :: "fade \<Rightarrow> nat" where
  "remaining c = max 1 (steps - currentStep c)"

definition expected_writes :: "fade \<Rightarrow> nat \<Rightarrow> (nat \<times> real) list" where
  "expected_writes c n =
     map (\<lambda>j. (fd_audio c, fade_value c (currentStep c + j))) [1..<Suc (min n (remaining c))]"

text \<open>Runs that consist of firings of the timer \<open>t\<close> and calls of
  \<^verbatim>\<open>adjustVolume\<close> only, and the number of firings in a run.\<close>

fun fade_run :: "nat \<Rightarrow> action list \<Rightarrow> bool" where
  "fade_run t [] = True"
| "fade_run t (FadeTick t' # xs) = (t' = t \<and> fade_run t xs)"
| "fade_run t (AdjustVolume v # xs) = fade_run t xs"
| "fade_run t (x # xs) = False"

fun tick_count :: "action list \<Rightarrow> nat" where
  "tick_count [] = 0"
| "tick_count (FadeTick t # xs) = Suc (tick_count xs)"
| "tick_count (x # xs) = tick_count xs"

text \<open>The invariant behind the range of the fader's writes: those made so far are in
  range, and every live fade has a target in range.\<close>

definition fade_targets_ok :: "hook \<Rightarrow> bool" where
  "fade_targets_ok st =
     (fade_writes_in_range (trace st) \<and>
      (\<forall>t c p. timers st t = Some (Interval c p) \<longrightarrow>
         0 \<le> targetVolume c \<and> targetVolume c \<le> 1))"

text \<open>The condition under which Claim C4 expects a configuration error, in the
  words of the specification: the fade-out does not fit into the crop window, or the
  interval bounds are reversed.\<close>

definition spec_config_error :: "config \<Rightarrow> bool" where
  "spec_config_error cfg =
     ((case stopAt cfg of
         Some stop \<Rightarrow> transitionEnd cfg > stop - startFrom cfg
       | None \<Rightarrow> False) \<or>
      minInterval cfg > maxInterval cfg)"

section \<open>Configurations used in the examples\<close>

definition opts_fade :: options where
  "opts_fade =
     \<lparr> opt_volume = None, opt_preload = None, opt_loop = None, opt_playRandomly = None,
       opt_minInterval = None, opt_maxInterval = None, opt_autoplay = None,
       opt_startFrom = Some 10, opt_stopAt = Some 40, opt_transitionStart = Some 5,
       opt_transitionEnd = Some 5 \<rparr>"

definition cfg_fade :: config where
  "cfg_fade = destructure ''chime.mp3'' opts_fade"

definition opts_none :: options where
  "opts_none =
     \<lparr> opt_volume = None, opt_preload = None, opt_loop = None, opt_playRandomly = None,
       opt_minInterval = None, opt_maxInterval = None, opt_autoplay = None,
       opt_startFrom = None, opt_stopAt = None, opt_transitionStart = None,
       opt_transitionEnd = None \<rparr>"

definition cfg_plain :: config where
  "cfg_plain = destructure ''click.mp3'' opts_none"

definition cfg_crop :: config where
  "cfg_crop = destructure ''song.mp3''
     (opts_none\<lparr> opt_preload := Some False, opt_startFrom := Some 10, opt_stopAt := Some 40,
        opt_transitionEnd := Some 5 \<rparr>)"

definition cfg_random :: config where
  "cfg_random = destructure ''chime.mp3''
     (opts_none\<lparr> opt_preload := Some False, opt_playRandomly := Some True \<rparr>)"

definition opts_bad_fade :: options where
  "opts_bad_fade = opts_none\<lparr> opt_stopAt := Some 5, opt_transitionEnd := Some 10 \<rparr>"

definition opts_bad_interval :: options where
  "opts_bad_interval = opts_none\<lparr> opt_minInterval := Some 9000, opt_maxInterval := Some 1000 \<rparr>"

definition cfg_loud :: config where
  "cfg_loud = destructure ''intro.mp3''
     (opts_none\<lparr> opt_volume := Some 1.5, opt_preload := Some False,
        opt_transitionStart := Some 2 \<rparr>)"

section \<open>Basic facts about the primitives\<close>

lemmas prims = emit_def upd_audio_def pause_def host_play_def set_volume_def fade_write_def
  clear_timer_def set_timer_def create_audio_def

section \<open>Evaluation of concrete runs\<close>

lemmas eval_defs = cfg_fade_def opts_fade_def destructure_def or_default_def mounted_def random_effect_def
  autoplay_effect_def preload_effect_def initial_def play_def playSoundEffect_def play_try_def
  cleanup_def handleTimeUpdate_def applyFade_def has_listeners_def stopRandomPlayback_def
  startRandomPlayback_def scheduleNextPlay_def new_Audio_def clamp01_def steps_def run_callback_def
  stopSoundEffect_def fade_tick_def timeout_fire_def unmount_def on_ended_def on_error_def
  on_play_rejected_def adjustVolume_def live_def new_events_def precedes_def Let_def
  opts_none_def cfg_plain_def cfg_crop_def cfg_random_def opts_bad_fade_def opts_bad_interval_def
  cfg_loud_def

section \<open>Teardown and the session invariant\<close>

lemma cleanup_refs [simp]:
  "audioRef (cleanup st) = None"
  "intervalRef (cleanup st) = None"
  "fadeIntervalRef (cleanup st) = None"
  "isPlaying (cleanup st) = False"
  by (simp_all add: cleanup_def prims Let_def split: option.splits)

lemma cleanup_frame [simp]:
  "isMountedRef (cleanup st) = isMountedRef st"
  "currentVolume (cleanup st) = currentVolume st"
  "next_audio (cleanup st) = next_audio st"
  "next_timer (cleanup st) = next_timer st"
  by (simp_all add: cleanup_def prims Let_def split: option.splits)

lemma cleanup_audios:
  "audios (cleanup st) a =
     (if audioRef st = Some a then (audios st a)\<lparr>paused := True\<rparr> else audios st a)"
  by (simp add: cleanup_def prims Let_def split: option.splits)

lemma cleanup_timers:
  "timers (cleanup st) t =
     (if intervalRef st = Some t \<or> fadeIntervalRef st = Some t then None else timers st t)"
  by (simp add: cleanup_def prims Let_def split: option.splits)

lemma cleanup_trace: "trace (cleanup st) = trace st @ cleanup_events st"
  by (simp add: cleanup_def cleanup_events_def prims Let_def split: option.splits)

lemma cleanup_live: "session_inv st \<Longrightarrow> \<not> live (cleanup st) a"
  by (auto simp: session_inv_def live_def cleanup_audios)

lemma no_live_inv: "(\<And>a. \<not> live st a) \<Longrightarrow> session_inv st"
  by (simp add: session_inv_def)

lemma run_callback_live: "session_inv st \<Longrightarrow> \<not> live (run_callback (Some cb) st) a"
  by (cases cb) (auto simp: run_callback_def session_inv_def live_def cleanup_audios prims)

lemma run_callback_inv: "session_inv st \<Longrightarrow> session_inv (run_callback cb st)"
  by (cases cb) (auto simp: run_callback_def session_inv_def live_def cleanup_audios prims
       split: option.splits callback.splits)

lemma applyFade_inv: "session_inv st \<Longrightarrow> session_inv (applyFade a v d cb st)"
proof (cases "d \<le> 0")
  case True
  assume "session_inv st"
  then have "session_inv (fade_write a v st)"
    by (simp add: session_inv_def live_def prims)
  then show ?thesis using True by (simp add: applyFade_def run_callback_inv)
next
  case False
  assume "session_inv st"
  then show ?thesis using False
    by (simp add: applyFade_def session_inv_def live_def prims Let_def split: option.splits)
qed


lemma fade_tick_dead:
  "timers st t = None \<Longrightarrow> fade_tick t st = st"
  "timers st t = Some (Timeout d) \<Longrightarrow> fade_tick t st = st"
  by (simp_all add: fade_tick_def)

lemma fade_tick_step:
  "timers st t = Some (Interval c p) \<Longrightarrow> Suc (currentStep c) < steps \<Longrightarrow>
   fade_tick t st =
     fade_write (fd_audio c) (clamp01 (startVolume c + volumeStep c * real (Suc (currentStep c))))
       (st\<lparr>timers := (timers st)(t \<mapsto> Interval (c\<lparr>currentStep := Suc (currentStep c)\<rparr>) p)\<rparr>)"
  by (simp add: fade_tick_def Let_def)

lemma fade_tick_last:
  "timers st t = Some (Interval c p) \<Longrightarrow> steps \<le> Suc (currentStep c) \<Longrightarrow>
   fade_tick t st =
     run_callback (onComplete c)
       (case fadeIntervalRef st of
          Some t' \<Rightarrow>
            (clear_timer t' (fade_write (fd_audio c) (targetVolume c)
               (st\<lparr>timers := (timers st)(t \<mapsto> Interval (c\<lparr>currentStep := Suc (currentStep c)\<rparr>) p)\<rparr>)))
            \<lparr>fadeIntervalRef := None\<rparr>
        | None \<Rightarrow>
            fade_write (fd_audio c) (targetVolume c)
              (st\<lparr>timers := (timers st)(t \<mapsto> Interval (c\<lparr>currentStep := Suc (currentStep c)\<rparr>) p)\<rparr>))"
  by (simp add: fade_tick_def Let_def prims split: option.splits)

lemma fade_tick_inv: "session_inv st \<Longrightarrow> session_inv (fade_tick t st)"
proof -
  assume inv: "session_inv st"
  show ?thesis
  proof (cases "timers st t")
    case None
    then show ?thesis using inv by (simp add: fade_tick_dead)
  next
    case (Some tm)
    show ?thesis
    proof (cases tm)
      case (Timeout d)
      then show ?thesis using inv Some by (simp add: fade_tick_dead)
    next
      case (Interval c p)
      show ?thesis
      proof (cases "Suc (currentStep c) < steps")
        case True
        then show ?thesis using inv Some Interval
          by (simp add: fade_tick_step session_inv_def live_def prims)
      next
        case False
        then have last: "steps \<le> Suc (currentStep c)" by simp
        show ?thesis using inv Some Interval
          unfolding fade_tick_last [OF Some [unfolded Interval] last]
          by (intro run_callback_inv) (simp add: session_inv_def live_def prims split: option.splits)
      qed
    qed
  qed
qed

lemma play_try_inv:
  assumes "\<And>a. \<not> live st a"
  shows "session_inv (state_of (play_try cfg h st))"
proof -
  have nl: "\<And>a. paused (audios st a)" using assms by (simp add: live_def)
  show ?thesis
    apply (cases h; simp add: play_try_def Let_def create_audio_def)
       apply (intro conjI impI applyFade_inv)
    apply (simp_all add: session_inv_def live_def prims new_Audio_def nl)
    done
qed

lemma play_inv: "session_inv st \<Longrightarrow> session_inv (play cfg h st)"
proof -
  assume inv: "session_inv st"
  have a: "session_inv (state_of (play_try cfg h (cleanup st)))"
    by (rule play_try_inv) (rule cleanup_live [OF inv])
  show ?thesis
  proof (cases "play_try cfg h (cleanup st)")
    case (Inr s)
    then show ?thesis using a inv by (simp add: play_def playSoundEffect_def)
  next
    case (Inl p)
    obtain e s where p: "p = (e, s)" by (cases p)
    have "session_inv s" using a Inl p by simp
    then have "session_inv (emit ConsoleError s)" by (simp add: session_inv_def live_def prims)
    then have "\<And>a. \<not> live (cleanup (emit ConsoleError s)) a" by (rule cleanup_live)
    then show ?thesis using Inl p inv by (simp add: play_def playSoundEffect_def no_live_inv)
  qed
qed


lemma playSoundEffect_returns: "playSoundEffect cfg h st = Inr (play cfg h st)"
  by (simp add: play_def playSoundEffect_def split: sum.splits prod.splits)

lemma session_inv_frame:
  "session_inv st \<Longrightarrow> audios st' = audios st \<Longrightarrow> audioRef st' = audioRef st \<Longrightarrow> session_inv st'"
  by (simp add: session_inv_def live_def)

lemma cleanup_inv: "session_inv st \<Longrightarrow> session_inv (cleanup st)"
  by (simp add: no_live_inv cleanup_live)

lemma pause_inv: "session_inv st \<Longrightarrow> session_inv (pause a st)"
  by (simp add: session_inv_def live_def prims)

lemma emit_inv: "session_inv st \<Longrightarrow> session_inv (emit e st)"
  by (simp add: session_inv_def live_def prims)

lemma handleTimeUpdate_inv: "session_inv st \<Longrightarrow> session_inv (handleTimeUpdate cfg a st)"
  by (simp add: handleTimeUpdate_def Let_def cleanup_inv pause_inv applyFade_inv split: option.splits)

lemma stopRandomPlayback_inv: "session_inv st \<Longrightarrow> session_inv (stopRandomPlayback st)"
  by (simp add: stopRandomPlayback_def session_inv_def live_def prims split: option.splits)

lemma scheduleNextPlay_inv: "session_inv st \<Longrightarrow> session_inv (scheduleNextPlay cfg r st)"
  by (simp add: scheduleNextPlay_def session_inv_def live_def prims Let_def)

lemma startRandomPlayback_inv: "session_inv st \<Longrightarrow> session_inv (startRandomPlayback cfg r st)"
  by (simp add: startRandomPlayback_def scheduleNextPlay_inv stopRandomPlayback_inv)

lemma adjustVolume_inv: "session_inv st \<Longrightarrow> session_inv (snd (adjustVolume v st))"
  by (auto simp add: adjustVolume_def session_inv_def live_def prims Let_def split: option.splits)

lemma timeout_fire_inv: "session_inv st \<Longrightarrow> session_inv (timeout_fire cfg t h r st)"
proof -
  assume inv: "session_inv st"
  have "session_inv (st\<lparr>timers := (timers st)(t := None)\<rparr>)"
    using inv by (simp add: session_inv_def live_def)
  then show ?thesis using inv
    by (simp add: timeout_fire_def Let_def playSoundEffect_returns scheduleNextPlay_inv play_inv
          split: option.splits timer.splits)
qed

lemma unmount_inv: "session_inv st \<Longrightarrow> session_inv (unmount st)"
proof -
  assume "session_inv st"
  then have "session_inv (stopRandomPlayback st)" by (rule stopRandomPlayback_inv)
  then have "session_inv ((stopRandomPlayback st)\<lparr>isMountedRef := False\<rparr>)"
    by (simp add: session_inv_def live_def)
  then show ?thesis unfolding unmount_def by (rule cleanup_inv)
qed

lemma step_inv: "session_inv st \<Longrightarrow> session_inv (step cfg x st)"
proof (cases x)
  case (TimeUpdate a pos)
  assume inv: "session_inv st"
  then have "session_inv (upd_audio a (\<lambda>x. x\<lparr>currentTime := pos\<rparr>) st)"
    by (simp add: session_inv_def live_def prims)
  then show ?thesis using inv TimeUpdate by (simp add: handleTimeUpdate_inv)
qed (simp_all add: play_inv stopSoundEffect_def cleanup_inv startRandomPlayback_inv
      stopRandomPlayback_inv adjustVolume_inv on_ended_def on_error_def on_play_rejected_def
      emit_inv fade_tick_inv timeout_fire_inv unmount_inv)

lemma run_inv: "session_inv st \<Longrightarrow> session_inv (run cfg xs st)"
  by (induction xs arbitrary: st) (simp_all add: step_inv)

lemma initial_inv: "session_inv (initial cfg)"
  by (simp add: session_inv_def live_def initial_def new_Audio_def)

lemma preload_effect_inv: "session_inv st \<Longrightarrow> session_inv (preload_effect cfg st)"
  by (auto simp add: preload_effect_def session_inv_def live_def prims Let_def new_Audio_def)

lemma mounted_inv: "session_inv (mounted cfg h r)"
  by (simp add: mounted_def random_effect_def autoplay_effect_def initial_inv preload_effect_inv
        play_inv startRandomPlayback_inv stopRandomPlayback_inv)

lemma reachable_inv: "session_inv (run cfg xs (mounted cfg h r))"
  by (rule run_inv) (rule mounted_inv)

lemma play_try_trace:
  "h \<noteq> ThrowNewAudio \<Longrightarrow>
   \<exists>rest. trace (state_of (play_try cfg h st)) = trace st @ NewAudio (next_audio st) # rest"
  apply (cases h; simp add: play_try_def Let_def create_audio_def)
  apply (auto simp: prims applyFade_def steps_def Let_def split: option.splits)
  done

lemma cleanup_events_no_create: "NewAudio n \<notin> set (cleanup_events st)"
  by (simp add: cleanup_events_def split: option.splits)

lemma play_trace:
  assumes "isMountedRef st" "h \<noteq> ThrowNewAudio"
  shows "\<exists>rest. trace (play cfg h st) =
           trace st @ cleanup_events st @ NewAudio (next_audio st) # rest"
proof -
  obtain rest where r: "trace (state_of (play_try cfg h (cleanup st))) =
      trace (cleanup st) @ NewAudio (next_audio (cleanup st)) # rest"
    using play_try_trace [OF assms(2)] by blast
  show ?thesis
  proof (cases "play_try cfg h (cleanup st)")
    case (Inr s)
    then show ?thesis using r assms by (simp add: play_def playSoundEffect_def cleanup_trace)
  next
    case (Inl p)
    obtain e s where p: "p = (e, s)" by (cases p)
    show ?thesis using r assms Inl p
      by (simp add: play_def playSoundEffect_def cleanup_trace prims)
  qed
qed

lemma precedes_append:
  "e1 \<in> set pre \<Longrightarrow> e2 \<notin> set pre \<Longrightarrow> precedes e1 e2 (pre @ e2 # rest)"
proof -
  assume a: "e1 \<in> set pre" and b: "e2 \<notin> set pre"
  have "takeWhile (\<lambda>e. e \<noteq> e2) (pre @ e2 # rest) = pre"
    using b by (induction pre) auto
  then show ?thesis using a by (simp add: precedes_def)
qed


lemma play_audioRef:
  "isMountedRef st \<Longrightarrow>
   audioRef (play cfg h st) = None \<or> audioRef (play cfg h st) = Some (next_audio st)"
  apply (cases h; simp add: play_def playSoundEffect_def play_try_def Let_def create_audio_def)
  apply (auto simp: prims applyFade_def steps_def Let_def split: option.splits)
  done

lemma inv_at_most_one: "session_inv st \<Longrightarrow> live st a \<Longrightarrow> live st b \<Longrightarrow> a = b"
  by (metis session_inv_def option.inject)

section \<open>Ownership of the fade timer\<close>

lemma no_fade_timer: "(\<And>t c p. timers st t \<noteq> Some (Interval c p)) \<Longrightarrow> fade_timer_inv st"
  by (simp add: fade_timer_inv_def)

lemma ft_cleanup_none:
  "fade_timer_inv st \<Longrightarrow> timers (cleanup st) t \<noteq> Some (Interval c p)"
  by (auto simp add: fade_timer_inv_def cleanup_timers)

lemma ft_cleanup: "fade_timer_inv st \<Longrightarrow> fade_timer_inv (cleanup st)"
  by (simp add: no_fade_timer ft_cleanup_none)

lemma ft_emit: "fade_timer_inv st \<Longrightarrow> fade_timer_inv (emit e st)"
  by (simp add: fade_timer_inv_def prims)

lemma ft_pause: "fade_timer_inv st \<Longrightarrow> fade_timer_inv (pause a st)"
  by (simp add: fade_timer_inv_def prims)

lemma ft_run_callback: "fade_timer_inv st \<Longrightarrow> fade_timer_inv (run_callback cb st)"
  by (auto simp add: run_callback_def ft_cleanup ft_pause ft_emit
        split: option.splits callback.splits)

lemma ft_applyFade: "fade_timer_inv st \<Longrightarrow> fade_timer_inv (applyFade a target d cb st)"
proof (cases "d \<le> 0")
  case True
  assume "fade_timer_inv st"
  then have "fade_timer_inv (fade_write a target st)"
    by (simp add: fade_timer_inv_def prims)
  then show ?thesis using True by (simp add: applyFade_def ft_run_callback)
next
  case False
  assume "fade_timer_inv st"
  then have key: "\<And>t c p. timers st t = Some (Interval c p) \<Longrightarrow> fadeIntervalRef st = Some t"
    unfolding fade_timer_inv_def by blast
  show ?thesis using False
    by (auto simp add: applyFade_def fade_timer_inv_def prims Let_def
          split: option.splits dest: key)
qed

lemma ft_fade_tick: "fade_timer_inv st \<Longrightarrow> fade_timer_inv (fade_tick t st)"
proof -
  assume ok: "fade_timer_inv st"
  show ?thesis
  proof (cases "timers st t")
    case None
    then show ?thesis using ok by (simp add: fade_tick_dead)
  next
    case (Some tm)
    show ?thesis
    proof (cases tm)
      case (Timeout d)
      then show ?thesis using ok Some by (simp add: fade_tick_dead)
    next
      case (Interval c p)
      have r: "fadeIntervalRef st = Some t"
        using ok Some Interval unfolding fade_timer_inv_def by blast
      show ?thesis
      proof (cases "Suc (currentStep c) < steps")
        case True
        then show ?thesis using ok Some Interval r
          by (auto simp add: fade_tick_step fade_timer_inv_def prims)
      next
        case False
        then have last: "steps \<le> Suc (currentStep c)" by simp
        show ?thesis using ok Some Interval r
          unfolding fade_tick_last [OF Some [unfolded Interval] last]
          by (intro ft_run_callback) (auto simp add: fade_timer_inv_def prims split: option.splits)
      qed
    qed
  qed
qed

lemma ft_play_try: "fade_timer_inv st \<Longrightarrow> fade_timer_inv (state_of (play_try cfg h st))"
  apply (cases h; simp add: play_try_def Let_def create_audio_def)
     apply (intro conjI impI ft_applyFade)
  apply (simp_all add: fade_timer_inv_def prims)
  done

lemma ft_play: "fade_timer_inv st \<Longrightarrow> fade_timer_inv (play cfg h st)"
proof -
  assume ok: "fade_timer_inv st"
  have a: "fade_timer_inv (state_of (play_try cfg h (cleanup st)))"
    by (rule ft_play_try) (rule ft_cleanup [OF ok])
  show ?thesis
  proof (cases "play_try cfg h (cleanup st)")
    case (Inr s)
    then show ?thesis using a ok by (simp add: play_def playSoundEffect_def)
  next
    case (Inl p)
    obtain e s where p: "p = (e, s)" by (cases p)
    have "fade_timer_inv s" using a Inl p by simp
    then have "fade_timer_inv (cleanup (emit ConsoleError s))"
      by (simp add: ft_cleanup ft_emit)
    then show ?thesis using Inl p ok by (simp add: play_def playSoundEffect_def)
  qed
qed

lemma ft_handleTimeUpdate: "fade_timer_inv st \<Longrightarrow> fade_timer_inv (handleTimeUpdate cfg a st)"
  by (simp add: handleTimeUpdate_def Let_def ft_cleanup ft_pause ft_applyFade split: option.splits)

lemma ft_stopRandomPlayback: "fade_timer_inv st \<Longrightarrow> fade_timer_inv (stopRandomPlayback st)"
  by (simp add: stopRandomPlayback_def fade_timer_inv_def prims split: option.splits)

lemma ft_scheduleNextPlay: "fade_timer_inv st \<Longrightarrow> fade_timer_inv (scheduleNextPlay cfg r st)"
  by (simp add: scheduleNextPlay_def fade_timer_inv_def prims Let_def)

lemma ft_startRandomPlayback:
  "fade_timer_inv st \<Longrightarrow> fade_timer_inv (startRandomPlayback cfg r st)"
  by (simp add: startRandomPlayback_def ft_scheduleNextPlay ft_stopRandomPlayback)

lemma ft_adjustVolume: "fade_timer_inv st \<Longrightarrow> fade_timer_inv (snd (adjustVolume v st))"
  by (simp add: adjustVolume_def fade_timer_inv_def prims Let_def split: option.splits)

lemma ft_timeout_fire: "fade_timer_inv st \<Longrightarrow> fade_timer_inv (timeout_fire cfg t h r st)"
proof -
  assume ok: "fade_timer_inv st"
  have "fade_timer_inv (st\<lparr>timers := (timers st)(t := None)\<rparr>)"
    using ok by (simp add: fade_timer_inv_def)
  then show ?thesis using ok
    by (simp add: timeout_fire_def Let_def playSoundEffect_returns ft_scheduleNextPlay ft_play
          split: option.splits timer.splits)
qed

lemma ft_unmount: "fade_timer_inv st \<Longrightarrow> fade_timer_inv (unmount st)"
proof -
  assume "fade_timer_inv st"
  then have "fade_timer_inv (stopRandomPlayback st)" by (rule ft_stopRandomPlayback)
  then have "fade_timer_inv ((stopRandomPlayback st)\<lparr>isMountedRef := False\<rparr>)"
    by (simp add: fade_timer_inv_def)
  then show ?thesis unfolding unmount_def by (rule ft_cleanup)
qed

lemma ft_step: "fade_timer_inv st \<Longrightarrow> fade_timer_inv (step cfg x st)"
proof (cases x)
  case (TimeUpdate a pos)
  assume ok: "fade_timer_inv st"
  then have "fade_timer_inv (upd_audio a (\<lambda>x. x\<lparr>currentTime := pos\<rparr>) st)"
    by (simp add: fade_timer_inv_def prims)
  then show ?thesis using ok TimeUpdate by (simp add: ft_handleTimeUpdate)
qed (simp_all add: ft_play stopSoundEffect_def ft_cleanup ft_startRandomPlayback
      ft_stopRandomPlayback ft_adjustVolume on_ended_def on_error_def on_play_rejected_def
      ft_emit ft_fade_tick ft_timeout_fire ft_unmount)

lemma ft_run: "fade_timer_inv st \<Longrightarrow> fade_timer_inv (run cfg xs st)"
  by (induction xs arbitrary: st) (simp_all add: ft_step)

lemma ft_mounted: "fade_timer_inv (mounted cfg h r)"
proof -
  have "fade_timer_inv (initial cfg)"
    by (simp add: fade_timer_inv_def initial_def)
  then have "fade_timer_inv (preload_effect cfg (initial cfg))"
    by (simp add: preload_effect_def fade_timer_inv_def prims Let_def)
  then show ?thesis
    by (simp add: mounted_def random_effect_def autoplay_effect_def ft_play
          ft_startRandomPlayback ft_stopRandomPlayback)
qed

lemma reachable_fade_timer:
  "timers (run cfg xs (mounted cfg h r)) t = Some (Interval c p) \<Longrightarrow>
   fadeIntervalRef (run cfg xs (mounted cfg h r)) = Some t"
  using ft_run [OF ft_mounted, of cfg xs cfg h r] unfolding fade_timer_inv_def by blast

section \<open>The fader, tick by tick\<close>

lemma fade_writes_append [simp]: "fade_writes (xs @ ys) = fade_writes xs @ fade_writes ys"
  by (induction xs rule: fade_writes.induct) simp_all

lemma invocations_append [simp]: "invocations (xs @ ys) = invocations xs + invocations ys"
  by (induction xs rule: invocations.induct) simp_all

lemma cleanup_events_fade_writes [simp]: "fade_writes (cleanup_events st) = []"
  by (simp add: cleanup_events_def split: option.splits)

lemma cleanup_events_invocations [simp]: "invocations (cleanup_events st) = 0"
  by (simp add: cleanup_events_def split: option.splits)

lemma cleanup_volume [simp]: "volume (audios (cleanup st) a) = volume (audios st a)"
  by (simp add: cleanup_audios)

lemma run_callback_facts:
  "volume (audios (run_callback cb st) a) = volume (audios st a)"
  "fade_writes (trace (run_callback cb st)) = fade_writes (trace st)"
  "invocations (trace (run_callback cb st)) = invocations (trace st) + (if cb = None then 0 else 1)"
  "fadeIntervalRef st = None \<Longrightarrow> fadeIntervalRef (run_callback cb st) = None"
  "fadeIntervalRef st = None \<Longrightarrow> timers st t = None \<Longrightarrow> timers (run_callback cb st) t = None"
  by (auto simp add: run_callback_def cleanup_trace cleanup_timers prims
        split: option.splits callback.splits)

lemma tick_nonfinal:
  assumes "fading t c p st" "Suc (currentStep c) < steps"
  shows "fading t (c\<lparr>currentStep := Suc (currentStep c)\<rparr>) p (fade_tick t st)"
    and "volume (audios (fade_tick t st) (fd_audio c)) = fade_value c (Suc (currentStep c))"
    and "fade_writes (trace (fade_tick t st)) =
           fade_writes (trace st) @ [(fd_audio c, fade_value c (Suc (currentStep c)))]"
    and "invocations (trace (fade_tick t st)) = invocations (trace st)"
  using assms by (simp_all add: fading_def fade_tick_step fade_value_def prims)

lemma tick_final:
  assumes "fading t c p st" "steps \<le> Suc (currentStep c)"
  shows "timers (fade_tick t st) t = None"
    and "fadeIntervalRef (fade_tick t st) = None"
    and "volume (audios (fade_tick t st) (fd_audio c)) = fade_value c (Suc (currentStep c))"
    and "fade_writes (trace (fade_tick t st)) =
           fade_writes (trace st) @ [(fd_audio c, fade_value c (Suc (currentStep c)))]"
    and "invocations (trace (fade_tick t st)) =
           invocations (trace st) + (if onComplete c = None then 0 else 1)"
  using assms by (simp_all add: fading_def fade_tick_last fade_value_def run_callback_facts prims)

lemma adjust_fading:
  "fading t c p st \<Longrightarrow> fading t c p (snd (adjustVolume v st))"
  "fade_writes (trace (snd (adjustVolume v st))) = fade_writes (trace st)"
  "invocations (trace (snd (adjustVolume v st))) = invocations (trace st)"
  "timers (snd (adjustVolume v st)) = timers st"
  "fadeIntervalRef (snd (adjustVolume v st)) = fadeIntervalRef st"
  by (simp_all add: fading_def adjustVolume_def Let_def prims split: option.splits)

lemma dead_run:
  assumes "timers st t = None" "fade_run t acts"
  shows "timers (run cfg acts st) t = None \<and>
         fadeIntervalRef (run cfg acts st) = fadeIntervalRef st \<and>
         fade_writes (trace (run cfg acts st)) = fade_writes (trace st) \<and>
         invocations (trace (run cfg acts st)) = invocations (trace st)"
  using assms
proof (induction acts arbitrary: st)
  case Nil
  then show ?case by simp
next
  case (Cons x xs)
  show ?case
  proof (cases x)
    case (FadeTick t')
    with Cons.prems have "t' = t" "fade_run t xs" by simp_all
    then show ?thesis using Cons.IH [of st] Cons.prems FadeTick
      by (simp add: fade_tick_dead)
  next
    case (AdjustVolume v)
    with Cons.prems have "fade_run t xs" by simp
    moreover have "timers (snd (adjustVolume v st)) t = None"
      using Cons.prems by (simp add: adjust_fading)
    ultimately show ?thesis using Cons.IH [of "snd (adjustVolume v st)"] AdjustVolume
      by (simp add: adjust_fading)
  qed (use Cons.prems in simp_all)
qed


lemma fade_value_step [simp]: "fade_value (c\<lparr>currentStep := k\<rparr>) j = fade_value c j"
  by (simp add: fade_value_def)

lemma expected_writes_0 [simp]: "expected_writes c 0 = []"
  by (simp add: expected_writes_def)

lemma expected_writes_final:
  "steps \<le> Suc (currentStep c) \<Longrightarrow>
   expected_writes c (Suc m) = [(fd_audio c, fade_value c (Suc (currentStep c)))]"
  by (simp add: expected_writes_def remaining_def)

lemma expected_writes_nonfinal:
  assumes "Suc (currentStep c) < steps"
  shows "expected_writes c (Suc m) =
           (fd_audio c, fade_value c (Suc (currentStep c)))
             # expected_writes (c\<lparr>currentStep := Suc (currentStep c)\<rparr>) m"
proof -
  define r where "r = steps - Suc (currentStep c)"
  have rc: "remaining c = Suc r" "remaining (c\<lparr>currentStep := Suc (currentStep c)\<rparr>) = r"
    using assms by (simp_all add: remaining_def r_def)
  have "[1..<Suc (min (Suc m) (Suc r))] = 1 # map Suc [1..<Suc (min m r)]"
    by (simp add: upt_conv_Cons map_Suc_upt del: upt_Suc)
  then show ?thesis
    by (simp add: expected_writes_def rc comp_def del: upt_Suc)
qed

lemma fade_run_summary:
  assumes "fading t c p st" "fade_run t acts"
  shows "fade_writes (trace (run cfg acts st)) =
           fade_writes (trace st) @ expected_writes c (tick_count acts) \<and>
         invocations (trace (run cfg acts st)) =
           invocations (trace st) +
             (if remaining c \<le> tick_count acts \<and> onComplete c \<noteq> None then 1 else 0) \<and>
         (if remaining c \<le> tick_count acts
          then timers (run cfg acts st) t = None \<and> fadeIntervalRef (run cfg acts st) = None
          else fading t (c\<lparr>currentStep := currentStep c + tick_count acts\<rparr>) p
                 (run cfg acts st))"
  using assms
proof (induction acts arbitrary: st c)
  case Nil
  then show ?case by (simp add: remaining_def)
next
  case (Cons x xs)
  show ?case
  proof (cases x)
    case (AdjustVolume v)
    with Cons.prems have fr: "fade_run t xs" by simp
    have f: "fading t c p (snd (adjustVolume v st))"
      using Cons.prems by (simp add: adjust_fading)
    show ?thesis using Cons.IH [OF f fr] AdjustVolume
      by (simp add: adjust_fading)
  next
    case (FadeTick t')
    with Cons.prems have t': "t' = t" and fr: "fade_run t xs" by simp_all
    show ?thesis
    proof (cases "Suc (currentStep c) < steps")
      case True
      let ?c = "c\<lparr>currentStep := Suc (currentStep c)\<rparr>"
      note T = tick_nonfinal [OF Cons.prems(1) True]
      have rem: "remaining c = Suc (remaining ?c)"
        using True by (simp add: remaining_def)
      show ?thesis using Cons.IH [OF T(1) fr] FadeTick t' T(3,4)
        by (simp add: expected_writes_nonfinal [OF True] rem cong del: if_weak_cong)
    next
      case False
      then have fin: "steps \<le> Suc (currentStep c)" by simp
      note T = tick_final [OF Cons.prems(1) fin]
      have rem: "remaining c = 1" using fin by (simp add: remaining_def)
      show ?thesis using dead_run [OF T(1) fr, of cfg] FadeTick t' T
        by (simp add: expected_writes_final [OF fin] rem)
    qed
  qed (use Cons.prems in simp_all)
qed

lemma fade_run_volume:
  assumes "fading t c p st" "fade_run t acts" "acts \<noteq> []" "last acts = FadeTick t"
    "tick_count acts \<le> remaining c"
  shows "volume (audios (run cfg acts st) (fd_audio c)) =
           fade_value c (currentStep c + tick_count acts)"
  using assms
proof (induction acts arbitrary: st c)
  case Nil
  then show ?case by simp
next
  case (Cons x xs)
  show ?case
  proof (cases "xs = []")
    case True
    with Cons.prems have x: "x = FadeTick t" by simp
    show ?thesis
    proof (cases "Suc (currentStep c) < steps")
      case True
      from tick_nonfinal(2) [OF Cons.prems(1) True] x \<open>xs = []\<close> show ?thesis by simp
    next
      case False
      then have fin: "steps \<le> Suc (currentStep c)" by simp
      from tick_final(3) [OF Cons.prems(1) fin] x \<open>xs = []\<close> show ?thesis by simp
    qed
  next
    case False
    then have l: "last xs = FadeTick t" using Cons.prems by simp
    have pos: "0 < tick_count xs" using False l
      by (induction xs rule: tick_count.induct) (auto split: if_splits)
    show ?thesis
    proof (cases x)
      case (AdjustVolume v)
      with Cons.prems have fr: "fade_run t xs" by simp
      have f: "fading t c p (snd (adjustVolume v st))"
        using Cons.prems by (simp add: adjust_fading)
      show ?thesis using Cons.IH [OF f fr False l] Cons.prems(5) AdjustVolume by simp
    next
      case (FadeTick t')
      with Cons.prems have t': "t' = t" and fr: "fade_run t xs" by simp_all
      have tc: "Suc (tick_count xs) \<le> remaining c" using Cons.prems(5) FadeTick by simp
      with pos have nf: "Suc (currentStep c) < steps" by (simp add: remaining_def)
      let ?c = "c\<lparr>currentStep := Suc (currentStep c)\<rparr>"
      note T = tick_nonfinal [OF Cons.prems(1) nf]
      have rem: "tick_count xs \<le> remaining ?c" using tc nf by (simp add: remaining_def)
      show ?thesis using Cons.IH [OF T(1) fr False l rem] FadeTick t' by simp
    qed (use Cons.prems in simp_all)
  qed
qed

lemma ticks_run: "ticks n t st = run cfg (replicate n (FadeTick t)) st"
  by (induction n arbitrary: st) simp_all

lemma replicate_ticks [simp]:
  "fade_run t (replicate n (FadeTick t))"
  "tick_count (replicate n (FadeTick t)) = n"
  by (induction n) simp_all


lemma applyFade_starts:
  assumes "0 < d"
  shows "fading (next_timer st)
           \<lparr> fd_audio = a, targetVolume = target, startVolume = volume (audios st a),
             volumeStep = (target - volume (audios st a)) / real steps, currentStep = 0,
             onComplete = cb \<rparr>
           (d * 1000 / real steps) (applyFade a target d cb st)"
    and "fade_writes (trace (applyFade a target d cb st)) = fade_writes (trace st)"
    and "invocations (trace (applyFade a target d cb st)) = invocations (trace st)"
  using assms by (simp_all add: fading_def applyFade_def Let_def prims split: option.splits)

lemma applyFade_ticks:
  assumes "0 < d"
  shows "fade_writes (trace (ticks n (next_timer st) (applyFade a target d cb st))) =
           fade_writes (trace st) @
           map (\<lambda>k. (a, if k < 50
                         then clamp01 (volume (audios st a) +
                                real k * (target - volume (audios st a)) / 50)
                         else target))
             [1..<Suc (min n 50)]"
    and "invocations (trace (ticks n (next_timer st) (applyFade a target d cb st))) =
           invocations (trace st) + (if 50 \<le> n \<and> cb \<noteq> None then 1 else 0)"
    and "50 \<le> n \<Longrightarrow>
           timers (ticks n (next_timer st) (applyFade a target d cb st)) (next_timer st) = None \<and>
           fadeIntervalRef (ticks n (next_timer st) (applyFade a target d cb st)) = None"
    and "n < 50 \<Longrightarrow>
           timers (ticks n (next_timer st) (applyFade a target d cb st)) (next_timer st) \<noteq> None"
    and "1 \<le> n \<Longrightarrow> n \<le> 50 \<Longrightarrow>
           volume (audios (ticks n (next_timer st) (applyFade a target d cb st)) a) =
             (if n < 50
              then clamp01 (volume (audios st a) + real n * (target - volume (audios st a)) / 50)
              else target)"
proof -
  define s where "s = volume (audios st a)"
  define t where "t = next_timer st"
  define st0 where "st0 = applyFade a target d cb st"
  define c where "c = \<lparr> fd_audio = a, targetVolume = target, startVolume = s,
      volumeStep = (target - s) / real steps, currentStep = 0, onComplete = cb \<rparr>"
  define p where "p = d * 1000 / real steps"
  note A = applyFade_starts [where st = st and a = a and target = target and cb = cb, OF assms]
  have f: "fading t c p st0"
    using A(1) by (simp add: t_def c_def p_def st0_def s_def)
  have rem: "remaining c = 50" by (simp add: remaining_def c_def steps_def)
  have val: "\<And>k. fade_value c k =
      (if k < 50 then clamp01 (s + real k * (target - s) / 50) else target)"
    by (simp add: fade_value_def c_def steps_def mult.commute)
  have oc: "onComplete c = cb" and cs: "currentStep c = 0" and fa: "fd_audio c = a"
    by (simp_all add: c_def)
  have S: "fade_writes (trace (ticks n t st0)) =
             fade_writes (trace st) @ expected_writes c n \<and>
           invocations (trace (ticks n t st0)) =
             invocations (trace st) + (if 50 \<le> n \<and> cb \<noteq> None then 1 else 0) \<and>
           (if 50 \<le> n
            then timers (ticks n t st0) t = None \<and> fadeIntervalRef (ticks n t st0) = None
            else fading t (c\<lparr>currentStep := n\<rparr>) p (ticks n t st0))"
    using fade_run_summary [OF f replicate_ticks(1) [of t n], of cfg_plain] A(2,3)
    unfolding ticks_run [of n t st0 cfg_plain, symmetric] replicate_ticks rem oc cs
      st0_def [symmetric]
    by (simp cong del: if_weak_cong)
  have ew: "expected_writes c n =
        map (\<lambda>k. (a, if k < 50 then clamp01 (s + real k * (target - s) / 50) else target))
          [1..<Suc (min n 50)]"
    by (simp add: expected_writes_def rem val fa cs del: upt_Suc)
  show "fade_writes (trace (ticks n (next_timer st) (applyFade a target d cb st))) =
           fade_writes (trace st) @
           map (\<lambda>k. (a, if k < 50
                         then clamp01 (volume (audios st a) +
                                real k * (target - volume (audios st a)) / 50)
                         else target))
             [1..<Suc (min n 50)]"
    using S ew unfolding s_def t_def st0_def by simp
  show "invocations (trace (ticks n (next_timer st) (applyFade a target d cb st))) =
           invocations (trace st) + (if 50 \<le> n \<and> cb \<noteq> None then 1 else 0)"
    using S unfolding t_def st0_def by blast
  show "50 \<le> n \<Longrightarrow>
           timers (ticks n (next_timer st) (applyFade a target d cb st)) (next_timer st) = None \<and>
           fadeIntervalRef (ticks n (next_timer st) (applyFade a target d cb st)) = None"
    using S unfolding t_def st0_def by simp
  show "n < 50 \<Longrightarrow>
           timers (ticks n (next_timer st) (applyFade a target d cb st)) (next_timer st) \<noteq> None"
    using S unfolding t_def st0_def by (simp add: fading_def)
  show "1 \<le> n \<Longrightarrow> n \<le> 50 \<Longrightarrow>
           volume (audios (ticks n (next_timer st) (applyFade a target d cb st)) a) =
             (if n < 50
              then clamp01 (volume (audios st a) + real n * (target - volume (audios st a)) / 50)
              else target)"
  proof -
    assume n: "1 \<le> n" "n \<le> 50"
    have ne: "replicate n (FadeTick t) \<noteq> []" using n by simp
    have la: "last (replicate n (FadeTick t)) = FadeTick t" using n by simp
    have le: "tick_count (replicate n (FadeTick t)) \<le> remaining c" using n rem by simp
    from fade_run_volume [OF f replicate_ticks(1) ne la le, of cfg_plain]
    have "volume (audios (ticks n t st0) a) = fade_value c n"
      unfolding ticks_run [of n t st0 cfg_plain, symmetric] by (simp add: fa cs)
    then show ?thesis unfolding val s_def t_def st0_def .
  qed
qed

section \<open>The targets of the fader\<close>

lemma in_range_append [simp]:
  "fade_writes_in_range (xs @ ys) = (fade_writes_in_range xs \<and> fade_writes_in_range ys)"
  by (simp add: fade_writes_in_range_def)

lemma in_range_simps [simp]:
  "fade_writes_in_range [] = True"
  "fade_writes_in_range (FadeWrite a v # es) = (0 \<le> v \<and> v \<le> 1 \<and> fade_writes_in_range es)"
  "fade_writes_in_range (NewAudio a # es) = fade_writes_in_range es"
  "fade_writes_in_range (Pause a # es) = fade_writes_in_range es"
  "fade_writes_in_range (PlayCall a # es) = fade_writes_in_range es"
  "fade_writes_in_range (SetTimer t # es) = fade_writes_in_range es"
  "fade_writes_in_range (ClearTimer t # es) = fade_writes_in_range es"
  "fade_writes_in_range (VolumeWrite a v # es) = fade_writes_in_range es"
  "fade_writes_in_range (Invoke cb # es) = fade_writes_in_range es"
  "fade_writes_in_range (ConsoleError # es) = fade_writes_in_range es"
  by (simp_all add: fade_writes_in_range_def)

lemma in_range_cleanup_events [simp]: "fade_writes_in_range (cleanup_events st)"
  by (simp add: fade_writes_in_range_def)

lemma clamp01_range [simp]: "0 \<le> clamp01 v" "clamp01 v \<le> 1"
  by (simp_all add: clamp01_def)

lemma ok_cleanup: "fade_targets_ok st \<Longrightarrow> fade_targets_ok (cleanup st)"
  by (simp add: fade_targets_ok_def cleanup_trace cleanup_timers)

lemma ok_emit:
  "fade_targets_ok st \<Longrightarrow> fade_writes_in_range [e] \<Longrightarrow> fade_targets_ok (emit e st)"
  by (simp add: fade_targets_ok_def prims)

lemma ok_pause: "fade_targets_ok st \<Longrightarrow> fade_targets_ok (pause a st)"
  by (simp add: fade_targets_ok_def prims)

lemma ok_run_callback: "fade_targets_ok st \<Longrightarrow> fade_targets_ok (run_callback cb st)"
  by (auto simp add: run_callback_def ok_cleanup ok_pause ok_emit
        split: option.splits callback.splits)

lemma ok_applyFade:
  assumes "fade_targets_ok st" "0 \<le> target" "target \<le> 1"
  shows "fade_targets_ok (applyFade a target d cb st)"
proof (cases "d \<le> 0")
  case True
  have "fade_targets_ok (fade_write a target st)"
    using assms by (simp add: fade_targets_ok_def prims)
  then show ?thesis using True by (simp add: applyFade_def ok_run_callback)
next
  case False
  then show ?thesis using assms
    by (simp add: applyFade_def fade_targets_ok_def prims Let_def split: option.splits)
qed

lemma ok_fade_tick: "fade_targets_ok st \<Longrightarrow> fade_targets_ok (fade_tick t st)"
proof -
  assume ok: "fade_targets_ok st"
  show ?thesis
  proof (cases "timers st t")
    case None
    then show ?thesis using ok by (simp add: fade_tick_dead)
  next
    case (Some tm)
    show ?thesis
    proof (cases tm)
      case (Timeout d)
      then show ?thesis using ok Some by (simp add: fade_tick_dead)
    next
      case (Interval c p)
      have tv: "0 \<le> targetVolume c \<and> targetVolume c \<le> 1"
        using ok Some Interval unfolding fade_targets_ok_def by blast
      show ?thesis
      proof (cases "Suc (currentStep c) < steps")
        case True
        then show ?thesis using ok Some Interval tv
          by (simp add: fade_tick_step fade_targets_ok_def prims)
      next
        case False
        then have last: "steps \<le> Suc (currentStep c)" by simp
        show ?thesis using ok Some Interval tv
          unfolding fade_tick_last [OF Some [unfolded Interval] last]
          by (intro ok_run_callback) (simp add: fade_targets_ok_def prims split: option.splits)
      qed
    qed
  qed
qed

lemma ok_play_try: "fade_targets_ok st \<Longrightarrow> fade_targets_ok (state_of (play_try cfg h st))"
  apply (cases h; simp add: play_try_def Let_def create_audio_def)
     apply (intro conjI impI ok_applyFade)
  apply (simp_all add: fade_targets_ok_def prims)
  done

lemma ok_play: "fade_targets_ok st \<Longrightarrow> fade_targets_ok (play cfg h st)"
proof -
  assume ok: "fade_targets_ok st"
  have a: "fade_targets_ok (state_of (play_try cfg h (cleanup st)))"
    by (rule ok_play_try) (rule ok_cleanup [OF ok])
  show ?thesis
  proof (cases "play_try cfg h (cleanup st)")
    case (Inr s)
    then show ?thesis using a ok by (simp add: play_def playSoundEffect_def)
  next
    case (Inl p)
    obtain e s where p: "p = (e, s)" by (cases p)
    have "fade_targets_ok s" using a Inl p by simp
    then have "fade_targets_ok (cleanup (emit ConsoleError s))"
      by (simp add: ok_cleanup ok_emit)
    then show ?thesis using Inl p ok by (simp add: play_def playSoundEffect_def)
  qed
qed

lemma ok_handleTimeUpdate: "fade_targets_ok st \<Longrightarrow> fade_targets_ok (handleTimeUpdate cfg a st)"
  by (simp add: handleTimeUpdate_def Let_def ok_cleanup ok_pause ok_applyFade split: option.splits)

lemma ok_stopRandomPlayback: "fade_targets_ok st \<Longrightarrow> fade_targets_ok (stopRandomPlayback st)"
  by (simp add: stopRandomPlayback_def fade_targets_ok_def prims split: option.splits)

lemma ok_scheduleNextPlay: "fade_targets_ok st \<Longrightarrow> fade_targets_ok (scheduleNextPlay cfg r st)"
  by (simp add: scheduleNextPlay_def fade_targets_ok_def prims Let_def)

lemma ok_startRandomPlayback:
  "fade_targets_ok st \<Longrightarrow> fade_targets_ok (startRandomPlayback cfg r st)"
  by (simp add: startRandomPlayback_def ok_scheduleNextPlay ok_stopRandomPlayback)

lemma ok_adjustVolume: "fade_targets_ok st \<Longrightarrow> fade_targets_ok (snd (adjustVolume v st))"
  by (simp add: adjustVolume_def fade_targets_ok_def prims Let_def split: option.splits)

lemma ok_timeout_fire: "fade_targets_ok st \<Longrightarrow> fade_targets_ok (timeout_fire cfg t h r st)"
proof -
  assume ok: "fade_targets_ok st"
  have "fade_targets_ok (st\<lparr>timers := (timers st)(t := None)\<rparr>)"
    using ok by (simp add: fade_targets_ok_def)
  then show ?thesis using ok
    by (simp add: timeout_fire_def Let_def playSoundEffect_returns ok_scheduleNextPlay ok_play
          split: option.splits timer.splits)
qed

lemma ok_unmount: "fade_targets_ok st \<Longrightarrow> fade_targets_ok (unmount st)"
proof -
  assume "fade_targets_ok st"
  then have "fade_targets_ok (stopRandomPlayback st)" by (rule ok_stopRandomPlayback)
  then have "fade_targets_ok ((stopRandomPlayback st)\<lparr>isMountedRef := False\<rparr>)"
    by (simp add: fade_targets_ok_def)
  then show ?thesis unfolding unmount_def by (rule ok_cleanup)
qed

lemma ok_step: "fade_targets_ok st \<Longrightarrow> fade_targets_ok (step cfg x st)"
proof (cases x)
  case (TimeUpdate a pos)
  assume ok: "fade_targets_ok st"
  then have "fade_targets_ok (upd_audio a (\<lambda>x. x\<lparr>currentTime := pos\<rparr>) st)"
    by (simp add: fade_targets_ok_def prims)
  then show ?thesis using ok TimeUpdate by (simp add: ok_handleTimeUpdate)
qed (simp_all add: ok_play stopSoundEffect_def ok_cleanup ok_startRandomPlayback
      ok_stopRandomPlayback ok_adjustVolume on_ended_def on_error_def on_play_rejected_def
      ok_emit ok_fade_tick ok_timeout_fire ok_unmount)

lemma ok_run: "fade_targets_ok st \<Longrightarrow> fade_targets_ok (run cfg xs st)"
  by (induction xs arbitrary: st) (simp_all add: ok_step)

lemma ok_mounted: "fade_targets_ok (mounted cfg h r)"
proof -
  have "fade_targets_ok (initial cfg)"
    by (simp add: fade_targets_ok_def initial_def)
  then have "fade_targets_ok (preload_effect cfg (initial cfg))"
    by (simp add: preload_effect_def fade_targets_ok_def prims Let_def)
  then show ?thesis
    by (simp add: mounted_def random_effect_def autoplay_effect_def ok_play
          ok_startRandomPlayback ok_stopRandomPlayback)
qed

section \<open>At most one session\<close>

text \<open>
  Claim C1.  In every state that a mounted hook can reach, by any sequence of calls
  and host events from any configuration, at most one element is live when \<^verbatim>\<open>play()\<close>
  returns, and it is the one \<open>audioRef\<close> holds; the same is true after a second
  \<^verbatim>\<open>play()\<close>; no element created before the call is live after it; and within the
  call the element of the previous session is paused, and every live fade timer cleared,
  before the new element is created.
\<close>

theorem at_most_one_session:
  "(let st = run cfg acts (mounted cfg h0 r0);
        st1 = play cfg h st;
        st2 = play cfg h' st1
    in (\<forall>a b. live st1 a \<and> live st1 b \<longrightarrow> a = b) \<and>
       (\<forall>a. live st1 a \<longrightarrow> audioRef st1 = Some a) \<and>
       (\<forall>a b. live st2 a \<and> live st2 b \<longrightarrow> a = b) \<and>
       (isMountedRef st \<longrightarrow> (\<forall>a. a < next_audio st \<longrightarrow> \<not> live st1 a)) \<and>
       (isMountedRef st \<and> h \<noteq> ThrowNewAudio \<longrightarrow>
          (\<forall>a. audioRef st = Some a \<longrightarrow>
             precedes (Pause a) (NewAudio (next_audio st)) (new_events st st1)) \<and>
          (\<forall>t c p. timers st t = Some (Interval c p) \<longrightarrow>
             precedes (ClearTimer t) (NewAudio (next_audio st)) (new_events st st1))))"
proof -
  define st where "st = run cfg acts (mounted cfg h0 r0)"
  define st1 where "st1 = play cfg h st"
  define st2 where "st2 = play cfg h' st1"
  have inv: "session_inv st" unfolding st_def by (rule reachable_inv)
  have inv1: "session_inv st1" unfolding st1_def using inv by (rule play_inv)
  have inv2: "session_inv st2" unfolding st2_def using inv1 by (rule play_inv)
  have one1: "\<forall>a b. live st1 a \<and> live st1 b \<longrightarrow> a = b"
    using inv_at_most_one [OF inv1] by blast
  have cur1: "\<forall>a. live st1 a \<longrightarrow> audioRef st1 = Some a"
    using inv1 by (simp add: session_inv_def)
  have one2: "\<forall>a b. live st2 a \<and> live st2 b \<longrightarrow> a = b"
    using inv_at_most_one [OF inv2] by blast
  have old: "isMountedRef st \<longrightarrow> (\<forall>a. a < next_audio st \<longrightarrow> \<not> live st1 a)"
  proof (intro impI allI notI)
    fix a assume m: "isMountedRef st" and a: "a < next_audio st" and l: "live st1 a"
    from cur1 l have "audioRef st1 = Some a" by simp
    with play_audioRef [OF m, of cfg h] a show False by (simp add: st1_def)
  qed
  have ord: "isMountedRef st \<and> h \<noteq> ThrowNewAudio \<longrightarrow>
          (\<forall>a. audioRef st = Some a \<longrightarrow>
             precedes (Pause a) (NewAudio (next_audio st)) (new_events st st1)) \<and>
          (\<forall>t c p. timers st t = Some (Interval c p) \<longrightarrow>
             precedes (ClearTimer t) (NewAudio (next_audio st)) (new_events st st1))"
  proof (intro impI)
    assume "isMountedRef st \<and> h \<noteq> ThrowNewAudio"
    then obtain rest where
      r: "trace st1 = trace st @ cleanup_events st @ NewAudio (next_audio st) # rest"
      using play_trace [of st h cfg] unfolding st1_def by blast
    have ne: "new_events st st1 = cleanup_events st @ NewAudio (next_audio st) # rest"
      by (simp add: new_events_def r)
    show "(\<forall>a. audioRef st = Some a \<longrightarrow>
             precedes (Pause a) (NewAudio (next_audio st)) (new_events st st1)) \<and>
          (\<forall>t c p. timers st t = Some (Interval c p) \<longrightarrow>
             precedes (ClearTimer t) (NewAudio (next_audio st)) (new_events st st1))"
    proof (intro conjI allI impI)
      fix a assume "audioRef st = Some a"
      then show "precedes (Pause a) (NewAudio (next_audio st)) (new_events st st1)"
        unfolding ne
        by (intro precedes_append cleanup_events_no_create) (simp add: cleanup_events_def)
    next
      fix t c p assume "timers st t = Some (Interval c p)"
      then have "fadeIntervalRef st = Some t"
        unfolding st_def by (rule reachable_fade_timer)
      then show "precedes (ClearTimer t) (NewAudio (next_audio st)) (new_events st st1)"
        unfolding ne
        by (intro precedes_append cleanup_events_no_create) (simp add: cleanup_events_def)
    qed
  qed
  show ?thesis
    using one1 cur1 one2 old ord unfolding Let_def st_def st1_def st2_def by blast
qed

theorem at_most_one_session_witness:
  "isMountedRef (run cfg_fade [Play NoThrow] (mounted cfg_fade NoThrow 0)) \<and>
   audioRef (run cfg_fade [Play NoThrow] (mounted cfg_fade NoThrow 0)) = Some 1 \<and>
   timers (run cfg_fade [Play NoThrow] (mounted cfg_fade NoThrow 0)) 0 =
     Some (Interval \<lparr> fd_audio = 1, targetVolume = 1, startVolume = 0, volumeStep = 1 / 50,
                      currentStep = 0, onComplete = None \<rparr> 100) \<and>
   live (run cfg_fade [Play NoThrow] (mounted cfg_fade NoThrow 0)) 1 \<and>
   live (play cfg_fade NoThrow (run cfg_fade [Play NoThrow] (mounted cfg_fade NoThrow 0))) 2 \<and>
   \<not> live (play cfg_fade NoThrow (run cfg_fade [Play NoThrow] (mounted cfg_fade NoThrow 0))) 1 \<and>
   audioRef (play cfg_fade NoThrow (run cfg_fade [Play NoThrow] (mounted cfg_fade NoThrow 0))) = Some 2 \<and>
   precedes (Pause 1) (NewAudio 2)
     (new_events (run cfg_fade [Play NoThrow] (mounted cfg_fade NoThrow 0))
        (play cfg_fade NoThrow (run cfg_fade [Play NoThrow] (mounted cfg_fade NoThrow 0)))) \<and>
   precedes (ClearTimer 0) (NewAudio 2)
     (new_events (run cfg_fade [Play NoThrow] (mounted cfg_fade NoThrow 0))
        (play cfg_fade NoThrow (run cfg_fade [Play NoThrow] (mounted cfg_fade NoThrow 0))))"
proof -
  let ?st = "run cfg_fade [Play NoThrow] (mounted cfg_fade NoThrow 0)"
  let ?st1 = "play cfg_fade NoThrow ?st"
  have st: "isMountedRef ?st \<and> audioRef ?st = Some 1 \<and>
      timers ?st 0 =
        Some (Interval \<lparr> fd_audio = 1, targetVolume = 1, startVolume = 0, volumeStep = 1 / 50,
                         currentStep = 0, onComplete = None \<rparr> 100) \<and>
      live ?st 1 \<and> next_audio ?st = 2"
    by (simp add: eval_defs prims)
  have l2: "live ?st1 2"
    by (simp add: eval_defs prims)
  note T = at_most_one_session [of cfg_fade "[Play NoThrow]" NoThrow 0 NoThrow NoThrow,
      unfolded Let_def]
  from T have A: "\<forall>a. live ?st1 a \<longrightarrow> audioRef ?st1 = Some a"
    and B: "isMountedRef ?st \<longrightarrow> (\<forall>a. a < next_audio ?st \<longrightarrow> \<not> live ?st1 a)"
    and C: "isMountedRef ?st \<and> NoThrow \<noteq> ThrowNewAudio \<longrightarrow>
          (\<forall>a. audioRef ?st = Some a \<longrightarrow>
             precedes (Pause a) (NewAudio (next_audio ?st)) (new_events ?st ?st1)) \<and>
          (\<forall>t c p. timers ?st t = Some (Interval c p) \<longrightarrow>
             precedes (ClearTimer t) (NewAudio (next_audio ?st)) (new_events ?st ?st1))"
    by blast+
  from A l2 have cur: "audioRef ?st1 = Some 2" by blast
  from st have lt: "(1::nat) < next_audio ?st" by (simp only:)
  from B st lt have old: "\<not> live ?st1 1" by blast
  from st have n: "next_audio ?st = 2" by blast
  from C st have p: "precedes (Pause 1) (NewAudio 2) (new_events ?st ?st1)"
    unfolding n by blast
  from C st have c: "precedes (ClearTimer 0) (NewAudio 2) (new_events ?st ?st1)"
    unfolding n by blast
  from st l2 cur old p c show ?thesis by blast
qed

section \<open>Volume adjustment\<close>

text \<open>
  Claim C8.  For every input \<open>v\<close>, \<^verbatim>\<open>adjustVolume(v)\<close> returns
  \<open>min 1 (max 0 v)\<close>; in particular it returns 1 for 1.5 and 0 for -0.2; and the
  value it returns is the value that \<open>currentVolume\<close> holds afterwards.
\<close>

theorem adjustVolume_clamps:
  "fst (adjustVolume v st) = min 1 (max 0 v) \<and>
   fst (adjustVolume 1.5 st) = 1 \<and>
   fst (adjustVolume (-0.2) st) = 0 \<and>
   currentVolume (snd (adjustVolume v st)) = fst (adjustVolume v st)"
  by (simp add: adjustVolume_def clamp01_def prims Let_def split: option.splits)

section \<open>Failures of the host during play\<close>

lemma play_try_failed_state:
  "h \<noteq> NoThrow \<Longrightarrow> \<exists>e s. play_try cfg h st = Inl (e, s)"
  by (cases h) (simp_all add: play_try_def Let_def split_def)

lemma torn_down_no_live:
  "session_inv st \<Longrightarrow> \<not> live (cleanup (emit ConsoleError st)) a"
  by (rule cleanup_live) (rule emit_inv)

lemma play_started:
  assumes "isMountedRef st"
  shows "audioRef (play cfg NoThrow st) = Some (next_audio st)"
    and "isPlaying (play cfg NoThrow st)"
    and "live (play cfg NoThrow st) (next_audio st)"
    and "has_listeners (next_audio st) (play cfg NoThrow st)"
  using assms
  by (simp_all add: play_def playSoundEffect_def play_try_def Let_def create_audio_def prims
        applyFade_def steps_def live_def has_listeners_def new_Audio_def split: option.splits)

lemma torn_down_no_timer:
  "fade_timer_inv st \<Longrightarrow> timers (cleanup (emit ConsoleError st)) t \<noteq> Some (Interval c p)"
  by (rule ft_cleanup_none) (rule ft_emit)

lemma torn_down_held_timer:
  "fadeIntervalRef st = Some t \<Longrightarrow> timers (cleanup (emit ConsoleError st)) t = None"
  by (simp add: cleanup_timers prims)

text \<open>
  Claim C5.  \<^verbatim>\<open>play()\<close> never throws to its caller and returns no value: in every
  reachable state and for every behaviour of the host, \<^verbatim>\<open>playSoundEffect\<close> returns.
  When the body of its \<^verbatim>\<open>try\<close> block throws, the exception is caught there and
  \<^verbatim>\<open>cleanup\<close> runs: no session is left, the playing flag is cleared, no fade timer is
  held, none is live in the host, and no element is live.  A call that does not throw
  leaves a live element with the listeners attached, so that a load error or a rejected
  \<^verbatim>\<open>play()\<close> promise of that element runs the same teardown: the element is paused,
  the refs are null, the playing flag is cleared and the fade timer is cancelled.
\<close>

theorem play_never_throws:
  "(let st = run cfg acts (mounted cfg h0 r0)
    in \<not> isl (playSoundEffect cfg h st) \<and>
       (isMountedRef st \<and> h \<noteq> NoThrow \<longrightarrow>
          isl (play_try cfg h (cleanup st)) \<and>
          playSoundEffect cfg h st =
            Inr (cleanup (emit ConsoleError (state_of (play_try cfg h (cleanup st))))) \<and>
          audioRef (play cfg h st) = None \<and> \<not> isPlaying (play cfg h st) \<and>
          fadeIntervalRef (play cfg h st) = None \<and> (\<forall>a. \<not> live (play cfg h st) a) \<and>
          (\<forall>t c p. timers (play cfg h st) t \<noteq> Some (Interval c p))) \<and>
       audioRef (on_error st) = None \<and> \<not> isPlaying (on_error st) \<and>
       fadeIntervalRef (on_error st) = None \<and> (\<forall>a. \<not> live (on_error st) a) \<and>
       audioRef (on_play_rejected st) = None \<and> \<not> isPlaying (on_play_rejected st) \<and>
       fadeIntervalRef (on_play_rejected st) = None \<and>
       (\<forall>a. \<not> live (on_play_rejected st) a) \<and>
       (\<forall>t c p. timers (on_error st) t \<noteq> Some (Interval c p)) \<and>
       (\<forall>t c p. timers (on_play_rejected st) t \<noteq> Some (Interval c p)) \<and>
       (\<forall>t. fadeIntervalRef st = Some t \<longrightarrow>
          timers (on_error st) t = None \<and> timers (on_play_rejected st) t = None) \<and>
       (isMountedRef st \<longrightarrow>
          audioRef (play cfg NoThrow st) = Some (next_audio st) \<and>
          isPlaying (play cfg NoThrow st) \<and>
          live (play cfg NoThrow st) (next_audio st) \<and>
          has_listeners (next_audio st) (play cfg NoThrow st) \<and>
          step cfg (ErrorEvent (next_audio st)) (play cfg NoThrow st) =
            on_error (play cfg NoThrow st) \<and>
          step cfg (PlayRejected (next_audio st)) (play cfg NoThrow st) =
            on_play_rejected (play cfg NoThrow st) \<and>
          audioRef (on_error (play cfg NoThrow st)) = None \<and>
          \<not> isPlaying (on_error (play cfg NoThrow st)) \<and>
          (\<forall>a. \<not> live (on_error (play cfg NoThrow st)) a) \<and>
          (\<forall>t c p. timers (on_error (play cfg NoThrow st)) t \<noteq> Some (Interval c p)) \<and>
          audioRef (on_play_rejected (play cfg NoThrow st)) = None \<and>
          \<not> isPlaying (on_play_rejected (play cfg NoThrow st)) \<and>
          (\<forall>a. \<not> live (on_play_rejected (play cfg NoThrow st)) a) \<and>
          (\<forall>t c p. timers (on_play_rejected (play cfg NoThrow st)) t \<noteq> Some (Interval c p))))"
proof -
  define st where "st = run cfg acts (mounted cfg h0 r0)"
  have inv: "session_inv st" unfolding st_def by (rule reachable_inv)
  have ft: "fade_timer_inv st" unfolding st_def by (rule ft_run) (rule ft_mounted)
  have ret: "\<not> isl (playSoundEffect cfg h st)"
    by (simp add: playSoundEffect_returns)
  have sync: "isMountedRef st \<and> h \<noteq> NoThrow \<longrightarrow>
      isl (play_try cfg h (cleanup st)) \<and>
      playSoundEffect cfg h st =
        Inr (cleanup (emit ConsoleError (state_of (play_try cfg h (cleanup st))))) \<and>
      audioRef (play cfg h st) = None \<and> \<not> isPlaying (play cfg h st) \<and>
      fadeIntervalRef (play cfg h st) = None \<and> (\<forall>a. \<not> live (play cfg h st) a) \<and>
      (\<forall>t c p. timers (play cfg h st) t \<noteq> Some (Interval c p))"
  proof (intro impI)
    assume a: "isMountedRef st \<and> h \<noteq> NoThrow"
    then obtain e s where f: "play_try cfg h (cleanup st) = Inl (e, s)"
      using play_try_failed_state by blast
    have p: "playSoundEffect cfg h st = Inr (cleanup (emit ConsoleError s))"
      using a f by (simp add: playSoundEffect_def)
    have "session_inv (state_of (play_try cfg h (cleanup st)))"
      by (rule play_try_inv) (rule cleanup_live [OF inv])
    then have "session_inv s" using f by simp
    then have l: "\<forall>a. \<not> live (cleanup (emit ConsoleError s)) a"
      by (simp add: torn_down_no_live)
    have "fade_timer_inv (state_of (play_try cfg h (cleanup st)))"
      by (rule ft_play_try) (rule ft_cleanup [OF ft])
    then have "fade_timer_inv s" using f by simp
    then have t: "\<forall>t c p. timers (cleanup (emit ConsoleError s)) t \<noteq> Some (Interval c p)"
      by (simp add: torn_down_no_timer)
    show "isl (play_try cfg h (cleanup st)) \<and>
      playSoundEffect cfg h st =
        Inr (cleanup (emit ConsoleError (state_of (play_try cfg h (cleanup st))))) \<and>
      audioRef (play cfg h st) = None \<and> \<not> isPlaying (play cfg h st) \<and>
      fadeIntervalRef (play cfg h st) = None \<and> (\<forall>a. \<not> live (play cfg h st) a) \<and>
      (\<forall>t c p. timers (play cfg h st) t \<noteq> Some (Interval c p))"
      using p f l t by (simp add: play_def)
  qed
  have ev: "audioRef (on_error st) = None \<and> \<not> isPlaying (on_error st) \<and>
       fadeIntervalRef (on_error st) = None \<and> (\<forall>a. \<not> live (on_error st) a) \<and>
       audioRef (on_play_rejected st) = None \<and> \<not> isPlaying (on_play_rejected st) \<and>
       fadeIntervalRef (on_play_rejected st) = None \<and>
       (\<forall>a. \<not> live (on_play_rejected st) a)"
    using torn_down_no_live [OF inv] by (simp add: on_error_def on_play_rejected_def)
  have tm: "(\<forall>t c p. timers (on_error st) t \<noteq> Some (Interval c p)) \<and>
       (\<forall>t c p. timers (on_play_rejected st) t \<noteq> Some (Interval c p)) \<and>
       (\<forall>t. fadeIntervalRef st = Some t \<longrightarrow>
          timers (on_error st) t = None \<and> timers (on_play_rejected st) t = None)"
    using torn_down_no_timer [OF ft] torn_down_held_timer [of st]
    by (simp add: on_error_def on_play_rejected_def)
  have att: "isMountedRef st \<longrightarrow>
          audioRef (play cfg NoThrow st) = Some (next_audio st) \<and>
          isPlaying (play cfg NoThrow st) \<and>
          live (play cfg NoThrow st) (next_audio st) \<and>
          has_listeners (next_audio st) (play cfg NoThrow st) \<and>
          step cfg (ErrorEvent (next_audio st)) (play cfg NoThrow st) =
            on_error (play cfg NoThrow st) \<and>
          step cfg (PlayRejected (next_audio st)) (play cfg NoThrow st) =
            on_play_rejected (play cfg NoThrow st) \<and>
          audioRef (on_error (play cfg NoThrow st)) = None \<and>
          \<not> isPlaying (on_error (play cfg NoThrow st)) \<and>
          (\<forall>a. \<not> live (on_error (play cfg NoThrow st)) a) \<and>
          (\<forall>t c p. timers (on_error (play cfg NoThrow st)) t \<noteq> Some (Interval c p)) \<and>
          audioRef (on_play_rejected (play cfg NoThrow st)) = None \<and>
          \<not> isPlaying (on_play_rejected (play cfg NoThrow st)) \<and>
          (\<forall>a. \<not> live (on_play_rejected (play cfg NoThrow st)) a) \<and>
          (\<forall>t c p. timers (on_play_rejected (play cfg NoThrow st)) t \<noteq> Some (Interval c p))"
  proof (intro impI)
    assume m: "isMountedRef st"
    have inv': "session_inv (play cfg NoThrow st)" using inv by (rule play_inv)
    have ft': "fade_timer_inv (play cfg NoThrow st)" using ft by (rule ft_play)
    note P = play_started [OF m, of cfg]
    show "audioRef (play cfg NoThrow st) = Some (next_audio st) \<and>
          isPlaying (play cfg NoThrow st) \<and>
          live (play cfg NoThrow st) (next_audio st) \<and>
          has_listeners (next_audio st) (play cfg NoThrow st) \<and>
          step cfg (ErrorEvent (next_audio st)) (play cfg NoThrow st) =
            on_error (play cfg NoThrow st) \<and>
          step cfg (PlayRejected (next_audio st)) (play cfg NoThrow st) =
            on_play_rejected (play cfg NoThrow st) \<and>
          audioRef (on_error (play cfg NoThrow st)) = None \<and>
          \<not> isPlaying (on_error (play cfg NoThrow st)) \<and>
          (\<forall>a. \<not> live (on_error (play cfg NoThrow st)) a) \<and>
          (\<forall>t c p. timers (on_error (play cfg NoThrow st)) t \<noteq> Some (Interval c p)) \<and>
          audioRef (on_play_rejected (play cfg NoThrow st)) = None \<and>
          \<not> isPlaying (on_play_rejected (play cfg NoThrow st)) \<and>
          (\<forall>a. \<not> live (on_play_rejected (play cfg NoThrow st)) a) \<and>
          (\<forall>t c p. timers (on_play_rejected (play cfg NoThrow st)) t \<noteq> Some (Interval c p))"
      using P torn_down_no_live [OF inv'] torn_down_no_timer [OF ft']
      by (simp add: on_error_def on_play_rejected_def)
  qed
  from ret sync ev tm att show ?thesis unfolding Let_def st_def [symmetric] by blast
qed

theorem play_never_throws_witness:
  "isMountedRef (mounted cfg_fade NoThrow 0) \<and> ThrowPlay \<noteq> NoThrow \<and>
   \<not> isl (playSoundEffect cfg_fade ThrowPlay (mounted cfg_fade NoThrow 0)) \<and>
   isl (play_try cfg_fade ThrowPlay (cleanup (mounted cfg_fade NoThrow 0))) \<and>
   audioRef (play cfg_fade ThrowPlay (mounted cfg_fade NoThrow 0)) = None \<and>
   \<not> isPlaying (play cfg_fade ThrowPlay (mounted cfg_fade NoThrow 0)) \<and>
   \<not> live (play cfg_fade ThrowPlay (mounted cfg_fade NoThrow 0)) 1 \<and>
   audioRef (play cfg_fade NoThrow (mounted cfg_fade NoThrow 0)) = Some 1 \<and>
   next_audio (mounted cfg_fade NoThrow 0) = 1 \<and>
   fadeIntervalRef (play cfg_fade NoThrow (mounted cfg_fade NoThrow 0)) = Some 0 \<and>
   timers (play cfg_fade NoThrow (mounted cfg_fade NoThrow 0)) 0 \<noteq> None \<and>
   has_listeners 1 (play cfg_fade NoThrow (mounted cfg_fade NoThrow 0)) \<and>
   step cfg_fade (ErrorEvent 1) (play cfg_fade NoThrow (mounted cfg_fade NoThrow 0)) =
     on_error (play cfg_fade NoThrow (mounted cfg_fade NoThrow 0)) \<and>
   audioRef (on_error (play cfg_fade NoThrow (mounted cfg_fade NoThrow 0))) = None \<and>
   \<not> live (on_error (play cfg_fade NoThrow (mounted cfg_fade NoThrow 0))) 1 \<and>
   timers (on_error (play cfg_fade NoThrow (mounted cfg_fade NoThrow 0))) 0 = None \<and>
   timers (on_play_rejected (play cfg_fade NoThrow (mounted cfg_fade NoThrow 0))) 0 = None"
proof -
  let ?st = "mounted cfg_fade NoThrow 0"
  let ?p = "play cfg_fade NoThrow ?st"
  have m: "isMountedRef ?st" and n: "next_audio ?st = 1"
    by (simp_all add: eval_defs prims)
  have f: "fadeIntervalRef ?p = Some 0" and t: "timers ?p 0 \<noteq> None"
    by (simp_all add: eval_defs prims)
  have d: "ThrowPlay \<noteq> NoThrow" by simp
  note T = play_never_throws [of cfg_fade "[]" NoThrow 0 ThrowPlay, unfolded Let_def run.simps n]
  note U = play_never_throws [of cfg_fade "[Play NoThrow]" NoThrow 0 NoThrow,
      unfolded Let_def run.simps step.simps]
  from T m d have a: "\<not> isl (playSoundEffect cfg_fade ThrowPlay ?st) \<and>
      isl (play_try cfg_fade ThrowPlay (cleanup ?st)) \<and>
      audioRef (play cfg_fade ThrowPlay ?st) = None \<and>
      \<not> isPlaying (play cfg_fade ThrowPlay ?st) \<and>
      \<not> live (play cfg_fade ThrowPlay ?st) 1"
    by blast
  from T m have b: "audioRef ?p = Some 1 \<and> has_listeners 1 ?p \<and>
      step cfg_fade (ErrorEvent 1) ?p = on_error ?p \<and>
      audioRef (on_error ?p) = None \<and> \<not> live (on_error ?p) 1"
    by blast
  from U f have c: "timers (on_error ?p) 0 = None \<and> timers (on_play_rejected ?p) 0 = None"
    by blast
  from m d n f t a b c show ?thesis by blast
qed

section \<open>The end-of-track listener\<close>

text \<open>
  Claim C9.  The \<^verbatim>\<open>ended\<close> listener of an element changes the state only when
  that element is still the one \<open>audioRef\<close> holds (and \<open>loop\<close> is off); for any other
  element it does nothing.  An element created before a call of \<^verbatim>\<open>play()\<close> is never
  the current one after it, so its \<^verbatim>\<open>ended\<close> event does not tear down the session
  that the call started.
\<close>

theorem stale_ended_guard:
  "(on_ended cfg a st \<noteq> st \<longrightarrow> audioRef st = Some a \<and> \<not> loop cfg) \<and>
   (audioRef st \<noteq> Some a \<longrightarrow> on_ended cfg a st = st) \<and>
   (isMountedRef st \<and> a < next_audio st \<longrightarrow>
      on_ended cfg a (play cfg h st) = play cfg h st)"
proof -
  have "isMountedRef st \<and> a < next_audio st \<longrightarrow> audioRef (play cfg h st) \<noteq> Some a"
    using play_audioRef [of st cfg h] by auto
  then show ?thesis by (auto simp: on_ended_def)
qed

theorem stale_ended_guard_witness:
  "isMountedRef (run cfg_plain [Play NoThrow] (mounted cfg_plain NoThrow 0)) \<and>
   1 < next_audio (run cfg_plain [Play NoThrow] (mounted cfg_plain NoThrow 0)) \<and>
   audioRef (run cfg_plain [Play NoThrow] (mounted cfg_plain NoThrow 0)) = Some 1 \<and>
   \<not> loop cfg_plain \<and>
   on_ended cfg_plain 1 (run cfg_plain [Play NoThrow] (mounted cfg_plain NoThrow 0)) \<noteq>
     run cfg_plain [Play NoThrow] (mounted cfg_plain NoThrow 0) \<and>
   on_ended cfg_plain 0 (run cfg_plain [Play NoThrow] (mounted cfg_plain NoThrow 0)) =
     run cfg_plain [Play NoThrow] (mounted cfg_plain NoThrow 0) \<and>
   on_ended cfg_plain 1
       (play cfg_plain NoThrow (run cfg_plain [Play NoThrow] (mounted cfg_plain NoThrow 0))) =
     play cfg_plain NoThrow (run cfg_plain [Play NoThrow] (mounted cfg_plain NoThrow 0))"
proof -
  let ?st = "run cfg_plain [Play NoThrow] (mounted cfg_plain NoThrow 0)"
  have st: "isMountedRef ?st \<and> 1 < next_audio ?st \<and> audioRef ?st = Some 1"
    by (simp add: eval_defs prims)
  then have ne: "audioRef ?st \<noteq> Some 0" by simp
  have "audioRef (on_ended cfg_plain 1 ?st) = None"
    by (simp add: eval_defs prims)
  with st have ch: "on_ended cfg_plain 1 ?st \<noteq> ?st" by (metis option.distinct(1))
  from stale_ended_guard [of cfg_plain 1 ?st] ch
  have l: "\<not> loop cfg_plain" by blast
  from stale_ended_guard [of cfg_plain 0 ?st] ne
  have a: "on_ended cfg_plain 0 ?st = ?st" by blast
  from stale_ended_guard [of cfg_plain 1 ?st NoThrow] st
  have b: "on_ended cfg_plain 1 (play cfg_plain NoThrow ?st) = play cfg_plain NoThrow ?st"
    by blast
  from st l ch a b show ?thesis by blast
qed

section \<open>Construction performs no validation\<close>

text \<open>
  Claim C4 says that constructing the controller with a fade-out longer than the crop
  window, or with reversed interval bounds, surfaces a configuration error.  The hook
  has no such check: both configurations below are in error in the sense of the claim,
  and the call returns for both.
\<close>

theorem construction_counterexample:
  "spec_config_error (destructure ''song.mp3'' opts_bad_fade) \<and>
   \<not> isl (useSoundEffect ''song.mp3'' opts_bad_fade) \<and>
   spec_config_error (destructure ''song.mp3'' opts_bad_interval) \<and>
   \<not> isl (useSoundEffect ''song.mp3'' opts_bad_interval)"
  by (simp add: spec_config_error_def useSoundEffect_def eval_defs)

text \<open>
  Claim C4, amended.  For every options object the call of the hook returns, with the
  state that the destructured options determine; the fade-out duration, the crop window
  and the interval bounds are taken over as given (or defaulted), unchecked.
\<close>

theorem construction_accepts_every_configuration:
  "\<not> isl (useSoundEffect url opts) \<and>
   state_of (useSoundEffect url opts) = initial (destructure url opts) \<and>
   transitionEnd (destructure url opts) = or_default (opt_transitionEnd opts) 0 \<and>
   stopAt (destructure url opts) = opt_stopAt opts \<and>
   startFrom (destructure url opts) = or_default (opt_startFrom opts) 0 \<and>
   minInterval (destructure url opts) = or_default (opt_minInterval opts) 5000 \<and>
   maxInterval (destructure url opts) = or_default (opt_maxInterval opts) 15000"
  by (simp add: useSoundEffect_def destructure_def)

section \<open>Manual stop and the random schedule\<close>

text \<open>
  Claim C2 says that a manual \<^verbatim>\<open>stop()\<close> leaves a pending random-interval timer
  unchanged.  Evaluated on a hook mounted with \<open>playRandomly\<close>: the schedule holds
  timer 0; after \<^verbatim>\<open>stop()\<close> the ref is null and the timer is gone from the host, as
  after \<^verbatim>\<open>stopRandom()\<close>, so that the scheduled play no longer fires; without the
  \<^verbatim>\<open>stop()\<close> it would have fired, started a session and scheduled timer 1.  The
  same \<^verbatim>\<open>cleanup\<close> runs when that session ends by itself, and cancels timer 1.
  The other half of the claim holds: the scheduled play is a call of the same
  \<^verbatim>\<open>playSoundEffect\<close>, followed by the rescheduling.
\<close>

theorem stop_cancels_random_schedule:
  "intervalRef (mounted cfg_random NoThrow 0) = Some 0 \<and>
   timers (mounted cfg_random NoThrow 0) 0 = Some (Timeout 5000) \<and>
   intervalRef (stopSoundEffect (mounted cfg_random NoThrow 0)) = None \<and>
   timers (stopSoundEffect (mounted cfg_random NoThrow 0)) 0 = None \<and>
   timeout_fire cfg_random 0 NoThrow 0 (stopSoundEffect (mounted cfg_random NoThrow 0)) =
     stopSoundEffect (mounted cfg_random NoThrow 0) \<and>
   timers (stopRandomPlayback (mounted cfg_random NoThrow 0)) 0 = None \<and>
   isPlaying (timeout_fire cfg_random 0 NoThrow 0 (mounted cfg_random NoThrow 0)) \<and>
   intervalRef (timeout_fire cfg_random 0 NoThrow 0 (mounted cfg_random NoThrow 0)) = Some 1 \<and>
   intervalRef (on_ended cfg_random 0
      (timeout_fire cfg_random 0 NoThrow 0 (mounted cfg_random NoThrow 0))) = None \<and>
   timers (on_ended cfg_random 0
      (timeout_fire cfg_random 0 NoThrow 0 (mounted cfg_random NoThrow 0))) 1 = None \<and>
   timeout_fire cfg_random 0 NoThrow 0 (mounted cfg_random NoThrow 0) =
     scheduleNextPlay cfg_random 0
       (play cfg_random NoThrow
          ((mounted cfg_random NoThrow 0)
             \<lparr>timers := (timers (mounted cfg_random NoThrow 0))(0 := None)\<rparr>))"
  by (simp add: eval_defs prims)

section \<open>Reaching stopAt during a fade-out\<close>

lemma all_imp_conj3:
  "(\<forall>t. P t \<longrightarrow> A t) \<Longrightarrow> (\<forall>t. P t \<longrightarrow> B t) \<Longrightarrow> (\<forall>t. P t \<longrightarrow> C t) \<Longrightarrow>
   (\<forall>t. P t \<longrightarrow> A t \<and> B t \<and> C t)"
  by blast

lemma ticks_fading:
  assumes "fading t c p st" "currentStep c + n < steps"
  shows "fading t (c\<lparr>currentStep := currentStep c + n\<rparr>) p (ticks n t st)"
proof -
  have r: "\<not> remaining c \<le> n" using assms(2) by (simp add: remaining_def)
  from fade_run_summary [OF assms(1) replicate_ticks(1) [of t n], of cfg_plain] r
  show ?thesis
    unfolding ticks_run [of n t st cfg_plain, symmetric] replicate_ticks by simp
qed

lemma tick_nonfinal_frame:
  assumes "fading t c p st" "Suc (currentStep c) < steps"
  shows "audioRef (fade_tick t st) = audioRef st"
    and "live (fade_tick t st) b = live st b"
    and "isPlaying (fade_tick t st) = isPlaying st"
    and "fadeIntervalRef (fade_tick t st) = Some t"
  using assms by (simp_all add: fading_def fade_tick_step prims live_def)

lemma tick_final_callback:
  assumes "fading t c p st" "steps \<le> Suc (currentStep c)"
    "onComplete c = Some (PauseAndCleanup a)"
  shows "audioRef (fade_tick t st) = None"
    and "\<not> isPlaying (fade_tick t st)"
    and "\<not> live (fade_tick t st) a"
  using assms
  by (simp_all add: fading_def fade_tick_last run_callback_def live_def cleanup_audios prims)

lemma tick_final_no_callback:
  assumes "fading t c p st" "steps \<le> Suc (currentStep c)" "onComplete c = None"
  shows "audioRef (fade_tick t st) = audioRef st"
    and "live (fade_tick t st) b = live st b"
    and "isPlaying (fade_tick t st) = isPlaying st"
  using assms
  by (simp_all add: fading_def fade_tick_last run_callback_def live_def prims)

text \<open>
  Claim C3 says that once a fade-out is in progress a position update at or beyond
  \<open>stopAt\<close> never stops the session abruptly, and that only the completion callback of
  the fade tears it down.  In the run below (crop 10 to 40, fade-out of 5 seconds) the
  fade-out starts at position 36 and has made one step, to volume 49/50, when the position
  update for 40 arrives: the element is paused and the session torn down at that
  volume, the fade timer is cancelled, and the completion callback has never run.
\<close>

theorem stopAt_tick_counterexample:
  "stopAt cfg_crop = Some 40 \<and> transitionEnd cfg_crop = 5 \<and>
   fadeIntervalRef (run cfg_crop [Play NoThrow, TimeUpdate 0 36, FadeTick 0]
                      (mounted cfg_crop NoThrow 0)) = Some 0 \<and>
   live (run cfg_crop [Play NoThrow, TimeUpdate 0 36, FadeTick 0]
           (mounted cfg_crop NoThrow 0)) 0 \<and>
   invocations (trace (run cfg_crop [Play NoThrow, TimeUpdate 0 36, FadeTick 0, TimeUpdate 0 40]
                         (mounted cfg_crop NoThrow 0))) = 0 \<and>
   \<not> live (run cfg_crop [Play NoThrow, TimeUpdate 0 36, FadeTick 0, TimeUpdate 0 40]
             (mounted cfg_crop NoThrow 0)) 0 \<and>
   audioRef (run cfg_crop [Play NoThrow, TimeUpdate 0 36, FadeTick 0, TimeUpdate 0 40]
               (mounted cfg_crop NoThrow 0)) = None \<and>
   timers (run cfg_crop [Play NoThrow, TimeUpdate 0 36, FadeTick 0, TimeUpdate 0 40]
             (mounted cfg_crop NoThrow 0)) 0 = None \<and>
   volume (audios (run cfg_crop [Play NoThrow, TimeUpdate 0 36, FadeTick 0, TimeUpdate 0 40]
                     (mounted cfg_crop NoThrow 0)) 0) = 49 / 50"
  by (simp add: eval_defs prims)

text \<open>
  Claim C3, amended.  With \<open>stopAt\<close> configured (and not 0) and \<open>transitionEnd > 0\<close>:
  a position update inside the fade-out window, with no fade timer held, starts the
  fade-out to volume 0, whose completion callback pauses the element and tears the session
  down.  While a fade timer is held, a position update inside the window changes nothing
  (no second fade is started), and a position update at or beyond \<open>stopAt\<close> pauses the
  element and tears the session down at once, cancelling the timer without a further fade
  write and without running its completion callback.  A tick of the held timer before its
  last leaves the session as it is; its last tick cancels the timer, and tears the session
  down exactly when the timer carries the completion callback of a fade-out (the timer of
  a fade-in carries none, and the session goes on).
\<close>

theorem stopAt_tick_during_fade_out:
  assumes "stopAt cfg = Some stop" and "stop \<noteq> 0" and "0 < transitionEnd cfg"
  shows
  "(fadeIntervalRef st = None \<and>
    stop - transitionEnd cfg \<le> currentTime (audios st a) \<and> currentTime (audios st a) < stop \<longrightarrow>
      handleTimeUpdate cfg a st =
        applyFade a 0 (transitionEnd cfg) (Some (PauseAndCleanup a)) st \<and>
      fadeIntervalRef (handleTimeUpdate cfg a st) = Some (next_timer st) \<and>
      timers (handleTimeUpdate cfg a st) (next_timer st) =
        Some (Interval \<lparr> fd_audio = a, targetVolume = 0, startVolume = volume (audios st a),
                         volumeStep = (0 - volume (audios st a)) / 50, currentStep = 0,
                         onComplete = Some (PauseAndCleanup a) \<rparr>
                (transitionEnd cfg * 1000 / 50)) \<and>
      audioRef (handleTimeUpdate cfg a st) = audioRef st \<and>
      (\<forall>b. live (handleTimeUpdate cfg a st) b = live st b)) \<and>
   (\<forall>t. fadeIntervalRef st = Some t \<longrightarrow>
      (stop \<le> currentTime (audios st a) \<longrightarrow>
         handleTimeUpdate cfg a st = cleanup (pause a st) \<and>
         \<not> live (handleTimeUpdate cfg a st) a \<and>
         audioRef (handleTimeUpdate cfg a st) = None \<and>
         \<not> isPlaying (handleTimeUpdate cfg a st) \<and>
         fadeIntervalRef (handleTimeUpdate cfg a st) = None \<and>
         timers (handleTimeUpdate cfg a st) t = None \<and>
         invocations (trace (handleTimeUpdate cfg a st)) = invocations (trace st) \<and>
         fade_writes (trace (handleTimeUpdate cfg a st)) = fade_writes (trace st)) \<and>
      (stop - transitionEnd cfg \<le> currentTime (audios st a) \<and>
       currentTime (audios st a) < stop \<longrightarrow>
         handleTimeUpdate cfg a st = st) \<and>
      (\<forall>c p. timers st t = Some (Interval c p) \<longrightarrow>
         (Suc (currentStep c) < steps \<longrightarrow>
            audioRef (fade_tick t st) = audioRef st \<and>
            (\<forall>b. live (fade_tick t st) b = live st b) \<and>
            isPlaying (fade_tick t st) = isPlaying st \<and>
            fadeIntervalRef (fade_tick t st) = Some t \<and>
            invocations (trace (fade_tick t st)) = invocations (trace st)) \<and>
         (steps \<le> Suc (currentStep c) \<and> onComplete c = Some (PauseAndCleanup a) \<longrightarrow>
            \<not> live (fade_tick t st) a \<and>
            audioRef (fade_tick t st) = None \<and>
            \<not> isPlaying (fade_tick t st) \<and>
            fadeIntervalRef (fade_tick t st) = None \<and>
            timers (fade_tick t st) t = None \<and>
            volume (audios (fade_tick t st) (fd_audio c)) = targetVolume c \<and>
            invocations (trace (fade_tick t st)) = Suc (invocations (trace st))) \<and>
         (steps \<le> Suc (currentStep c) \<and> onComplete c = None \<longrightarrow>
            audioRef (fade_tick t st) = audioRef st \<and>
            (\<forall>b. live (fade_tick t st) b = live st b) \<and>
            isPlaying (fade_tick t st) = isPlaying st \<and>
            fadeIntervalRef (fade_tick t st) = None \<and>
            timers (fade_tick t st) t = None \<and>
            invocations (trace (fade_tick t st)) = invocations (trace st))))"
proof -
  have start: "fadeIntervalRef st = None \<and>
    stop - transitionEnd cfg \<le> currentTime (audios st a) \<and> currentTime (audios st a) < stop \<longrightarrow>
      handleTimeUpdate cfg a st =
        applyFade a 0 (transitionEnd cfg) (Some (PauseAndCleanup a)) st \<and>
      fadeIntervalRef (handleTimeUpdate cfg a st) = Some (next_timer st) \<and>
      timers (handleTimeUpdate cfg a st) (next_timer st) =
        Some (Interval \<lparr> fd_audio = a, targetVolume = 0, startVolume = volume (audios st a),
                         volumeStep = (0 - volume (audios st a)) / 50, currentStep = 0,
                         onComplete = Some (PauseAndCleanup a) \<rparr>
                (transitionEnd cfg * 1000 / 50)) \<and>
      audioRef (handleTimeUpdate cfg a st) = audioRef st \<and>
      (\<forall>b. live (handleTimeUpdate cfg a st) b = live st b)"
  proof (intro impI)
    assume h: "fadeIntervalRef st = None \<and>
      stop - transitionEnd cfg \<le> currentTime (audios st a) \<and> currentTime (audios st a) < stop"
    have e: "handleTimeUpdate cfg a st =
        applyFade a 0 (transitionEnd cfg) (Some (PauseAndCleanup a)) st"
      using assms h by (simp add: handleTimeUpdate_def)
    note A = applyFade_starts(1) [where st = st and a = a and target = 0
        and cb = "Some (PauseAndCleanup a)", OF assms(3)]
    have fr: "audioRef (applyFade a 0 (transitionEnd cfg) (Some (PauseAndCleanup a)) st) =
        audioRef st"
      "\<And>b. live (applyFade a 0 (transitionEnd cfg) (Some (PauseAndCleanup a)) st) b = live st b"
      using assms(3) h by (simp_all add: applyFade_def Let_def prims live_def)
    show "handleTimeUpdate cfg a st =
        applyFade a 0 (transitionEnd cfg) (Some (PauseAndCleanup a)) st \<and>
      fadeIntervalRef (handleTimeUpdate cfg a st) = Some (next_timer st) \<and>
      timers (handleTimeUpdate cfg a st) (next_timer st) =
        Some (Interval \<lparr> fd_audio = a, targetVolume = 0, startVolume = volume (audios st a),
                         volumeStep = (0 - volume (audios st a)) / 50, currentStep = 0,
                         onComplete = Some (PauseAndCleanup a) \<rparr>
                (transitionEnd cfg * 1000 / 50)) \<and>
      audioRef (handleTimeUpdate cfg a st) = audioRef st \<and>
      (\<forall>b. live (handleTimeUpdate cfg a st) b = live st b)"
      unfolding e using A fr by (simp add: fading_def steps_def)
  qed
  have heldA: "\<forall>t. fadeIntervalRef st = Some t \<longrightarrow>
      (stop \<le> currentTime (audios st a) \<longrightarrow>
         handleTimeUpdate cfg a st = cleanup (pause a st) \<and>
         \<not> live (handleTimeUpdate cfg a st) a \<and>
         audioRef (handleTimeUpdate cfg a st) = None \<and>
         \<not> isPlaying (handleTimeUpdate cfg a st) \<and>
         fadeIntervalRef (handleTimeUpdate cfg a st) = None \<and>
         timers (handleTimeUpdate cfg a st) t = None \<and>
         invocations (trace (handleTimeUpdate cfg a st)) = invocations (trace st) \<and>
         fade_writes (trace (handleTimeUpdate cfg a st)) = fade_writes (trace st))"
  proof (intro allI impI)
    fix t assume r: "fadeIntervalRef st = Some t" and s: "stop \<le> currentTime (audios st a)"
    have f: "fadeIntervalRef (pause a st) = Some t" using r by (simp add: prims)
    have e: "handleTimeUpdate cfg a st = cleanup (pause a st)"
      using assms s by (simp add: handleTimeUpdate_def)
    have "\<not> live (cleanup (pause a st)) a"
      by (simp add: live_def cleanup_audios prims)
    moreover have "timers (cleanup (pause a st)) t = None"
      using f by (simp add: cleanup_timers)
    moreover have "invocations (trace (cleanup (pause a st))) = invocations (trace st)"
      "fade_writes (trace (cleanup (pause a st))) = fade_writes (trace st)"
      by (simp_all add: cleanup_trace prims)
    ultimately show "handleTimeUpdate cfg a st = cleanup (pause a st) \<and>
         \<not> live (handleTimeUpdate cfg a st) a \<and>
         audioRef (handleTimeUpdate cfg a st) = None \<and>
         \<not> isPlaying (handleTimeUpdate cfg a st) \<and>
         fadeIntervalRef (handleTimeUpdate cfg a st) = None \<and>
         timers (handleTimeUpdate cfg a st) t = None \<and>
         invocations (trace (handleTimeUpdate cfg a st)) = invocations (trace st) \<and>
         fade_writes (trace (handleTimeUpdate cfg a st)) = fade_writes (trace st)"
      unfolding e by simp
  qed
  have heldB: "\<forall>t. fadeIntervalRef st = Some t \<longrightarrow>
      (stop - transitionEnd cfg \<le> currentTime (audios st a) \<and>
       currentTime (audios st a) < stop \<longrightarrow>
         handleTimeUpdate cfg a st = st)"
    using assms by (simp add: handleTimeUpdate_def)
  have tick: "\<forall>t. fadeIntervalRef st = Some t \<longrightarrow>
      (\<forall>c p. timers st t = Some (Interval c p) \<longrightarrow>
         (Suc (currentStep c) < steps \<longrightarrow>
            audioRef (fade_tick t st) = audioRef st \<and>
            (\<forall>b. live (fade_tick t st) b = live st b) \<and>
            isPlaying (fade_tick t st) = isPlaying st \<and>
            fadeIntervalRef (fade_tick t st) = Some t \<and>
            invocations (trace (fade_tick t st)) = invocations (trace st)) \<and>
         (steps \<le> Suc (currentStep c) \<and> onComplete c = Some (PauseAndCleanup a) \<longrightarrow>
            \<not> live (fade_tick t st) a \<and>
            audioRef (fade_tick t st) = None \<and>
            \<not> isPlaying (fade_tick t st) \<and>
            fadeIntervalRef (fade_tick t st) = None \<and>
            timers (fade_tick t st) t = None \<and>
            volume (audios (fade_tick t st) (fd_audio c)) = targetVolume c \<and>
            invocations (trace (fade_tick t st)) = Suc (invocations (trace st))) \<and>
         (steps \<le> Suc (currentStep c) \<and> onComplete c = None \<longrightarrow>
            audioRef (fade_tick t st) = audioRef st \<and>
            (\<forall>b. live (fade_tick t st) b = live st b) \<and>
            isPlaying (fade_tick t st) = isPlaying st \<and>
            fadeIntervalRef (fade_tick t st) = None \<and>
            timers (fade_tick t st) t = None \<and>
            invocations (trace (fade_tick t st)) = invocations (trace st)))"
  proof (intro allI impI)
    fix t c p
    assume r: "fadeIntervalRef st = Some t" and tm: "timers st t = Some (Interval c p)"
    then have f: "fading t c p st" by (simp add: fading_def)
    have nonfinal: "Suc (currentStep c) < steps \<longrightarrow>
            audioRef (fade_tick t st) = audioRef st \<and>
            (\<forall>b. live (fade_tick t st) b = live st b) \<and>
            isPlaying (fade_tick t st) = isPlaying st \<and>
            fadeIntervalRef (fade_tick t st) = Some t \<and>
            invocations (trace (fade_tick t st)) = invocations (trace st)"
    proof (intro impI)
      assume nf: "Suc (currentStep c) < steps"
      show "audioRef (fade_tick t st) = audioRef st \<and>
            (\<forall>b. live (fade_tick t st) b = live st b) \<and>
            isPlaying (fade_tick t st) = isPlaying st \<and>
            fadeIntervalRef (fade_tick t st) = Some t \<and>
            invocations (trace (fade_tick t st)) = invocations (trace st)"
        using tick_nonfinal_frame [OF f nf] tick_nonfinal(4) [OF f nf] by simp
    qed
    have with_cb: "steps \<le> Suc (currentStep c) \<and> onComplete c = Some (PauseAndCleanup a) \<longrightarrow>
            \<not> live (fade_tick t st) a \<and>
            audioRef (fade_tick t st) = None \<and>
            \<not> isPlaying (fade_tick t st) \<and>
            fadeIntervalRef (fade_tick t st) = None \<and>
            timers (fade_tick t st) t = None \<and>
            volume (audios (fade_tick t st) (fd_audio c)) = targetVolume c \<and>
            invocations (trace (fade_tick t st)) = Suc (invocations (trace st))"
    proof (intro impI)
      assume fin: "steps \<le> Suc (currentStep c) \<and> onComplete c = Some (PauseAndCleanup a)"
      then have l: "steps \<le> Suc (currentStep c)" and oc: "onComplete c = Some (PauseAndCleanup a)"
        by simp_all
      show "\<not> live (fade_tick t st) a \<and>
            audioRef (fade_tick t st) = None \<and>
            \<not> isPlaying (fade_tick t st) \<and>
            fadeIntervalRef (fade_tick t st) = None \<and>
            timers (fade_tick t st) t = None \<and>
            volume (audios (fade_tick t st) (fd_audio c)) = targetVolume c \<and>
            invocations (trace (fade_tick t st)) = Suc (invocations (trace st))"
        using tick_final_callback [OF f l oc] tick_final [OF f l] l oc
        by (simp add: fade_value_def)
    qed
    have no_cb: "steps \<le> Suc (currentStep c) \<and> onComplete c = None \<longrightarrow>
            audioRef (fade_tick t st) = audioRef st \<and>
            (\<forall>b. live (fade_tick t st) b = live st b) \<and>
            isPlaying (fade_tick t st) = isPlaying st \<and>
            fadeIntervalRef (fade_tick t st) = None \<and>
            timers (fade_tick t st) t = None \<and>
            invocations (trace (fade_tick t st)) = invocations (trace st)"
    proof (intro impI)
      assume fin: "steps \<le> Suc (currentStep c) \<and> onComplete c = None"
      then have l: "steps \<le> Suc (currentStep c)" and oc: "onComplete c = None"
        by simp_all
      show "audioRef (fade_tick t st) = audioRef st \<and>
            (\<forall>b. live (fade_tick t st) b = live st b) \<and>
            isPlaying (fade_tick t st) = isPlaying st \<and>
            fadeIntervalRef (fade_tick t st) = None \<and>
            timers (fade_tick t st) t = None \<and>
            invocations (trace (fade_tick t st)) = invocations (trace st)"
        using tick_final_no_callback [OF f l oc] tick_final [OF f l] oc by simp
    qed
    from nonfinal with_cb no_cb
    show "(Suc (currentStep c) < steps \<longrightarrow>
            audioRef (fade_tick t st) = audioRef st \<and>
            (\<forall>b. live (fade_tick t st) b = live st b) \<and>
            isPlaying (fade_tick t st) = isPlaying st \<and>
            fadeIntervalRef (fade_tick t st) = Some t \<and>
            invocations (trace (fade_tick t st)) = invocations (trace st)) \<and>
         (steps \<le> Suc (currentStep c) \<and> onComplete c = Some (PauseAndCleanup a) \<longrightarrow>
            \<not> live (fade_tick t st) a \<and>
            audioRef (fade_tick t st) = None \<and>
            \<not> isPlaying (fade_tick t st) \<and>
            fadeIntervalRef (fade_tick t st) = None \<and>
            timers (fade_tick t st) t = None \<and>
            volume (audios (fade_tick t st) (fd_audio c)) = targetVolume c \<and>
            invocations (trace (fade_tick t st)) = Suc (invocations (trace st))) \<and>
         (steps \<le> Suc (currentStep c) \<and> onComplete c = None \<longrightarrow>
            audioRef (fade_tick t st) = audioRef st \<and>
            (\<forall>b. live (fade_tick t st) b = live st b) \<and>
            isPlaying (fade_tick t st) = isPlaying st \<and>
            fadeIntervalRef (fade_tick t st) = None \<and>
            timers (fade_tick t st) t = None \<and>
            invocations (trace (fade_tick t st)) = invocations (trace st))"
      by (intro conjI)
  qed
  show ?thesis
    by (rule conjI [OF start all_imp_conj3 [OF heldA heldB tick]])
qed

theorem stopAt_tick_during_fade_out_witness:
  "stopAt cfg_crop = Some 40 \<and> (40::real) \<noteq> 0 \<and> 0 < transitionEnd cfg_crop \<and>
   fadeIntervalRef (upd_audio 0 (\<lambda>x. x\<lparr>currentTime := 36\<rparr>)
      (run cfg_crop [Play NoThrow] (mounted cfg_crop NoThrow 0))) = None \<and>
   timers (handleTimeUpdate cfg_crop 0 (upd_audio 0 (\<lambda>x. x\<lparr>currentTime := 36\<rparr>)
      (run cfg_crop [Play NoThrow] (mounted cfg_crop NoThrow 0)))) 0 =
     Some (Interval \<lparr> fd_audio = 0, targetVolume = 0, startVolume = 1, volumeStep = - 1 / 50,
                      currentStep = 0, onComplete = Some (PauseAndCleanup 0) \<rparr> 100) \<and>
   audioRef (handleTimeUpdate cfg_crop 0
      (upd_audio 0 (\<lambda>x. x\<lparr>currentTime := 40\<rparr>)
         (handleTimeUpdate cfg_crop 0 (upd_audio 0 (\<lambda>x. x\<lparr>currentTime := 36\<rparr>)
            (run cfg_crop [Play NoThrow] (mounted cfg_crop NoThrow 0)))))) = None \<and>
   timers (handleTimeUpdate cfg_crop 0
      (upd_audio 0 (\<lambda>x. x\<lparr>currentTime := 40\<rparr>)
         (handleTimeUpdate cfg_crop 0 (upd_audio 0 (\<lambda>x. x\<lparr>currentTime := 36\<rparr>)
            (run cfg_crop [Play NoThrow] (mounted cfg_crop NoThrow 0)))))) 0 = None \<and>
   handleTimeUpdate cfg_crop 0
      (upd_audio 0 (\<lambda>x. x\<lparr>currentTime := 37\<rparr>)
         (handleTimeUpdate cfg_crop 0 (upd_audio 0 (\<lambda>x. x\<lparr>currentTime := 36\<rparr>)
            (run cfg_crop [Play NoThrow] (mounted cfg_crop NoThrow 0))))) =
     upd_audio 0 (\<lambda>x. x\<lparr>currentTime := 37\<rparr>)
         (handleTimeUpdate cfg_crop 0 (upd_audio 0 (\<lambda>x. x\<lparr>currentTime := 36\<rparr>)
            (run cfg_crop [Play NoThrow] (mounted cfg_crop NoThrow 0)))) \<and>
   audioRef (fade_tick 0
      (handleTimeUpdate cfg_crop 0 (upd_audio 0 (\<lambda>x. x\<lparr>currentTime := 36\<rparr>)
         (run cfg_crop [Play NoThrow] (mounted cfg_crop NoThrow 0))))) = Some 0 \<and>
   audioRef (fade_tick 0 (ticks 49 0
      (handleTimeUpdate cfg_crop 0 (upd_audio 0 (\<lambda>x. x\<lparr>currentTime := 36\<rparr>)
         (run cfg_crop [Play NoThrow] (mounted cfg_crop NoThrow 0)))))) = None \<and>
   \<not> live (fade_tick 0 (ticks 49 0
      (handleTimeUpdate cfg_crop 0 (upd_audio 0 (\<lambda>x. x\<lparr>currentTime := 36\<rparr>)
         (run cfg_crop [Play NoThrow] (mounted cfg_crop NoThrow 0)))))) 0 \<and>
   stopAt cfg_fade = Some 40 \<and> 0 < transitionEnd cfg_fade \<and>
   timers (run cfg_fade [Play NoThrow] (mounted cfg_fade NoThrow 0)) 0 =
     Some (Interval \<lparr> fd_audio = 1, targetVolume = 1, startVolume = 0, volumeStep = 1 / 50,
                      currentStep = 0, onComplete = None \<rparr> 100) \<and>
   audioRef (fade_tick 0 (ticks 49 0 (run cfg_fade [Play NoThrow] (mounted cfg_fade NoThrow 0)))) =
     audioRef (ticks 49 0 (run cfg_fade [Play NoThrow] (mounted cfg_fade NoThrow 0))) \<and>
   live (fade_tick 0 (ticks 49 0 (run cfg_fade [Play NoThrow] (mounted cfg_fade NoThrow 0)))) 1 =
     live (ticks 49 0 (run cfg_fade [Play NoThrow] (mounted cfg_fade NoThrow 0))) 1 \<and>
   timers (fade_tick 0 (ticks 49 0 (run cfg_fade [Play NoThrow] (mounted cfg_fade NoThrow 0)))) 0 =
     None"
proof -
  let ?r = "run cfg_crop [Play NoThrow] (mounted cfg_crop NoThrow 0)"
  let ?s36 = "upd_audio 0 (\<lambda>x. x\<lparr>currentTime := 36\<rparr>) ?r"
  let ?f0 = "handleTimeUpdate cfg_crop 0 ?s36"
  let ?s40 = "upd_audio 0 (\<lambda>x. x\<lparr>currentTime := 40\<rparr>) ?f0"
  let ?s37 = "upd_audio 0 (\<lambda>x. x\<lparr>currentTime := 37\<rparr>) ?f0"
  let ?c = "\<lparr> fd_audio = 0, targetVolume = 0, startVolume = 1, volumeStep = - 1 / 50,
             currentStep = 0, onComplete = Some (PauseAndCleanup 0) \<rparr>"
  let ?g = "run cfg_fade [Play NoThrow] (mounted cfg_fade NoThrow 0)"
  let ?d = "\<lparr> fd_audio = 1, targetVolume = 1, startVolume = 0, volumeStep = 1 / 50,
             currentStep = 0, onComplete = None \<rparr>"
  have c: "stopAt cfg_crop = Some 40" "(40::real) \<noteq> 0" "0 < transitionEnd cfg_crop"
    and te: "transitionEnd cfg_crop = 5"
    by (simp_all add: eval_defs)
  have r: "fadeIntervalRef ?r = None" "next_timer ?r = 0" "volume (audios ?r 0) = 1"
    "audioRef ?r = Some 0"
    by (simp_all add: eval_defs prims)
  have s36: "fadeIntervalRef ?s36 = None" "next_timer ?s36 = 0" "volume (audios ?s36 0) = 1"
    "audioRef ?s36 = Some 0" "currentTime (audios ?s36 0) = 36"
    using r by (simp_all add: prims)
  have w: "fadeIntervalRef ?s36 = None \<and> 40 - transitionEnd cfg_crop \<le> currentTime (audios ?s36 0) \<and>
      currentTime (audios ?s36 0) < 40"
    using s36 te by simp
  note T = stopAt_tick_during_fade_out [OF c, of ?s36 0]
  from T w have f0: "fadeIntervalRef ?f0 = Some (next_timer ?s36)"
    and t0: "timers ?f0 (next_timer ?s36) =
        Some (Interval \<lparr> fd_audio = 0, targetVolume = 0, startVolume = volume (audios ?s36 0),
                         volumeStep = (0 - volume (audios ?s36 0)) / 50, currentStep = 0,
                         onComplete = Some (PauseAndCleanup 0) \<rparr>
                (transitionEnd cfg_crop * 1000 / 50))"
    and a0: "audioRef ?f0 = audioRef ?s36"
    by blast+
  have f0': "fadeIntervalRef ?f0 = Some 0" using f0 s36 by simp
  have t0': "timers ?f0 0 = Some (Interval ?c 100)" using t0 s36 te by simp
  have a0': "audioRef ?f0 = Some 0" using a0 s36 by simp
  have f40: "fadeIntervalRef ?s40 = Some 0" and p40: "40 \<le> currentTime (audios ?s40 0)"
    using f0' by (simp_all add: prims)
  have f37: "fadeIntervalRef ?s37 = Some 0"
    and p37: "40 - transitionEnd cfg_crop \<le> currentTime (audios ?s37 0) \<and>
      currentTime (audios ?s37 0) < 40"
    using f0' te by (simp_all add: prims)
  from stopAt_tick_during_fade_out [OF c, of ?s40 0] f40 p40
  have stop: "audioRef (handleTimeUpdate cfg_crop 0 ?s40) = None \<and>
      timers (handleTimeUpdate cfg_crop 0 ?s40) 0 = None"
    by blast
  from stopAt_tick_during_fade_out [OF c, of ?s37 0] f37 p37
  have win: "handleTimeUpdate cfg_crop 0 ?s37 = ?s37"
    by blast
  have nf: "Suc (currentStep ?c) < steps" by (simp add: steps_def)
  from stopAt_tick_during_fade_out [OF c, of ?f0 0] f0' t0' nf
  have "audioRef (fade_tick 0 ?f0) = audioRef ?f0" by blast
  then have first: "audioRef (fade_tick 0 ?f0) = Some 0" using a0' by simp
  have "fading 0 ?c 100 ?f0" using f0' t0' by (simp add: fading_def)
  from ticks_fading [OF this, of 49]
  have "fading 0 (?c\<lparr>currentStep := 49\<rparr>) 100 (ticks 49 0 ?f0)" by (simp add: steps_def)
  then have f49: "fadeIntervalRef (ticks 49 0 ?f0) = Some 0"
    and t49: "timers (ticks 49 0 ?f0) 0 = Some (Interval (?c\<lparr>currentStep := 49\<rparr>) 100)"
    by (simp_all add: fading_def)
  have l49: "steps \<le> Suc (currentStep (?c\<lparr>currentStep := 49\<rparr>)) \<and>
      onComplete (?c\<lparr>currentStep := 49\<rparr>) = Some (PauseAndCleanup 0)"
    by (simp add: steps_def)
  from stopAt_tick_during_fade_out [OF c, of "ticks 49 0 ?f0" 0] f49 t49 l49
  have ended: "audioRef (fade_tick 0 (ticks 49 0 ?f0)) = None \<and>
      \<not> live (fade_tick 0 (ticks 49 0 ?f0)) 0"
    by blast
  have cf: "stopAt cfg_fade = Some 40" "0 < transitionEnd cfg_fade"
    by (simp_all add: eval_defs)
  have g: "timers ?g 0 = Some (Interval ?d 100)" "fadeIntervalRef ?g = Some 0"
    by (simp_all add: eval_defs prims)
  then have "fading 0 ?d 100 ?g" by (simp add: fading_def)
  from ticks_fading [OF this, of 49]
  have "fading 0 (?d\<lparr>currentStep := 49\<rparr>) 100 (ticks 49 0 ?g)" by (simp add: steps_def)
  then have g49: "fadeIntervalRef (ticks 49 0 ?g) = Some 0"
    and u49: "timers (ticks 49 0 ?g) 0 = Some (Interval (?d\<lparr>currentStep := 49\<rparr>) 100)"
    by (simp_all add: fading_def)
  have m49: "steps \<le> Suc (currentStep (?d\<lparr>currentStep := 49\<rparr>)) \<and>
      onComplete (?d\<lparr>currentStep := 49\<rparr>) = None"
    by (simp add: steps_def)
  from stopAt_tick_during_fade_out [OF cf(1) c(2) cf(2), of "ticks 49 0 ?g" 1] g49 u49 m49
  have fin: "audioRef (fade_tick 0 (ticks 49 0 ?g)) = audioRef (ticks 49 0 ?g) \<and>
      live (fade_tick 0 (ticks 49 0 ?g)) 1 = live (ticks 49 0 ?g) 1 \<and>
      timers (fade_tick 0 (ticks 49 0 ?g)) 0 = None"
    by blast
  from c s36(1) t0' stop win first ended cf g(1) fin show ?thesis by blast
qed

section \<open>Fade interpolation\<close>

text \<open>
  Claim C6.  A fade of positive duration \<open>d\<close> from the volume \<open>s\<close> of the element to
  the target sets a repeating timer of period \<open>d * 1000 / 50\<close> ms.  After tick \<open>k\<close>, for
  \<open>1 \<le> k < 50\<close>, the volume is \<open>s + k * (target - s) / 50\<close> clamped to [0,1], the timer
  is still live and the completion callback has not run.  Tick 50 sets the volume to the
  target exactly and cancels the timer, and from then on the completion callback (when one
  was given) has run exactly once; the fader makes exactly 50 writes.
\<close>

theorem fade_interpolation:
  assumes "0 < d"
  shows
  "(let s = volume (audios st a);
        t = next_timer st;
        st0 = applyFade a target d cb st
    in fadeIntervalRef st0 = Some t \<and>
       timers st0 t =
         Some (Interval \<lparr> fd_audio = a, targetVolume = target, startVolume = s,
                          volumeStep = (target - s) / 50, currentStep = 0, onComplete = cb \<rparr>
                 (d * 1000 / 50)) \<and>
       (\<forall>k. 1 \<le> k \<and> k < 50 \<longrightarrow>
          volume (audios (ticks k t st0) a) = clamp01 (s + real k * (target - s) / 50) \<and>
          timers (ticks k t st0) t \<noteq> None \<and>
          invocations (trace (ticks k t st0)) = invocations (trace st)) \<and>
       volume (audios (ticks 50 t st0) a) = target \<and>
       timers (ticks 50 t st0) t = None \<and>
       fadeIntervalRef (ticks 50 t st0) = None \<and>
       (\<forall>n. 50 \<le> n \<longrightarrow>
          invocations (trace (ticks n t st0)) =
            invocations (trace st) + (if cb = None then 0 else 1)) \<and>
       (\<forall>n. fade_writes (trace (ticks n t st0)) =
          fade_writes (trace st) @
          map (\<lambda>k. (a, if k < 50 then clamp01 (s + real k * (target - s) / 50) else target))
            [1..<Suc (min n 50)]))"
proof -
  note T = applyFade_ticks [OF assms, of _ st a target cb]
  have 1: "fadeIntervalRef (applyFade a target d cb st) = Some (next_timer st)"
    and 2: "timers (applyFade a target d cb st) (next_timer st) =
      Some (Interval \<lparr> fd_audio = a, targetVolume = target, startVolume = volume (audios st a),
               volumeStep = (target - volume (audios st a)) / 50, currentStep = 0,
               onComplete = cb \<rparr> (d * 1000 / 50))"
    using applyFade_starts(1) [where st = st and a = a and target = target and cb = cb, OF assms]
    by (simp_all add: fading_def steps_def)
  have 3: "\<forall>k. 1 \<le> k \<and> k < 50 \<longrightarrow>
      volume (audios (ticks k (next_timer st) (applyFade a target d cb st)) a) =
        clamp01 (volume (audios st a) + real k * (target - volume (audios st a)) / 50) \<and>
      timers (ticks k (next_timer st) (applyFade a target d cb st)) (next_timer st) \<noteq> None \<and>
      invocations (trace (ticks k (next_timer st) (applyFade a target d cb st))) =
        invocations (trace st)"
    using T(2,4,5) by simp
  have 4: "volume (audios (ticks 50 (next_timer st) (applyFade a target d cb st)) a) = target"
    using T(5) [of 50] by simp
  have 5: "timers (ticks 50 (next_timer st) (applyFade a target d cb st)) (next_timer st) = None"
    and 6: "fadeIntervalRef (ticks 50 (next_timer st) (applyFade a target d cb st)) = None"
    using T(3) [of 50] by simp_all
  have 7: "\<forall>n. 50 \<le> n \<longrightarrow>
      invocations (trace (ticks n (next_timer st) (applyFade a target d cb st))) =
        invocations (trace st) + (if cb = None then 0 else 1)"
    using T(2) by auto
  show ?thesis
    unfolding Let_def using 1 2 3 4 5 6 7 T(1) by blast
qed

theorem fade_interpolation_witness:
  "(0::real) < 5 \<and>
   volume (audios (ticks 25 0 (applyFade 0 0 5 None (mounted cfg_plain NoThrow 0))) 0) = 1 / 2 \<and>
   volume (audios (ticks 50 0 (applyFade 0 0 5 None (mounted cfg_plain NoThrow 0))) 0) = 0 \<and>
   timers (applyFade 0 0 5 None (mounted cfg_plain NoThrow 0)) 0 =
     Some (Interval \<lparr> fd_audio = 0, targetVolume = 0, startVolume = 1, volumeStep = - 1 / 50,
                      currentStep = 0, onComplete = None \<rparr> 100) \<and>
   timers (ticks 50 0 (applyFade 0 0 5 None (mounted cfg_plain NoThrow 0))) 0 = None \<and>
   invocations (trace (ticks 25 0
      (applyFade 0 0 5 (Some (PauseAndCleanup 0)) (mounted cfg_plain NoThrow 0)))) = 0 \<and>
   invocations (trace (ticks 50 0
      (applyFade 0 0 5 (Some (PauseAndCleanup 0)) (mounted cfg_plain NoThrow 0)))) = 1 \<and>
   invocations (trace (ticks 75 0
      (applyFade 0 0 5 (Some (PauseAndCleanup 0)) (mounted cfg_plain NoThrow 0)))) = 1"
proof -
  let ?st = "mounted cfg_plain NoThrow 0"
  let ?cb = "Some (PauseAndCleanup 0)"
  have s: "volume (audios ?st 0) = 1" "next_timer ?st = 0"
    by (simp_all add: eval_defs prims)
  have i: "invocations (trace ?st) = 0"
    by (simp add: eval_defs prims)
  have d: "(0::real) < 5" by simp
  note T = fade_interpolation [OF d, of ?st 0 0 None, unfolded Let_def s]
  note U = fade_interpolation [OF d, of ?st 0 0 ?cb, unfolded Let_def s i]
  from T have k: "1 \<le> (25::nat) \<and> (25::nat) < 50 \<longrightarrow>
     volume (audios (ticks 25 0 (applyFade 0 0 5 None ?st)) 0) = clamp01 (1 + real 25 * (0 - 1) / 50)"
    by blast
  then have v25: "volume (audios (ticks 25 0 (applyFade 0 0 5 None ?st)) 0) = 1 / 2"
    by (simp add: clamp01_def)
  from T have v50: "volume (audios (ticks 50 0 (applyFade 0 0 5 None ?st)) 0) = 0"
    and t50: "timers (ticks 50 0 (applyFade 0 0 5 None ?st)) 0 = None"
    by blast+
  from T have t0: "timers (applyFade 0 0 5 None ?st) 0 =
     Some (Interval \<lparr> fd_audio = 0, targetVolume = 0, startVolume = 1, volumeStep = (0 - 1) / 50,
                      currentStep = 0, onComplete = None \<rparr> (5 * 1000 / 50))"
    by blast
  then have t0': "timers (applyFade 0 0 5 None ?st) 0 =
     Some (Interval \<lparr> fd_audio = 0, targetVolume = 0, startVolume = 1, volumeStep = - 1 / 50,
                      currentStep = 0, onComplete = None \<rparr> 100)"
    by simp
  from U have "1 \<le> (25::nat) \<and> (25::nat) < 50 \<longrightarrow>
      invocations (trace (ticks 25 0 (applyFade 0 0 5 ?cb ?st))) = 0"
    by blast
  then have i25: "invocations (trace (ticks 25 0 (applyFade 0 0 5 ?cb ?st))) = 0" by simp
  from U have n: "\<forall>n. 50 \<le> n \<longrightarrow> invocations (trace (ticks n 0 (applyFade 0 0 5 ?cb ?st))) =
      0 + (if ?cb = None then 0 else 1)"
    by blast
  from n have i50: "invocations (trace (ticks 50 0 (applyFade 0 0 5 ?cb ?st))) = 1"
    by simp
  from n have i75: "invocations (trace (ticks 75 0 (applyFade 0 0 5 ?cb ?st))) = 1"
    by simp
  from d v25 v50 t0' t50 i25 i50 i75 show ?thesis by blast
qed

section \<open>Fades do not depend on volume adjustments\<close>

text \<open>
  Claim C10.  While a fade is in progress, the writes of the fader are the absolute values
  \<open>startVolume + k * volumeStep\<close> (clamped; the target on the last tick), computed from
  the closure of the timer.  Two runs of timer firings and \<^verbatim>\<open>adjustVolume\<close> calls with
  the same number of firings produce the same sequence of fader writes, and when both end
  with a firing, before or at the completion of the fade, the same volume of the element.
\<close>

theorem fade_noninterference:
  assumes "timers st t = Some (Interval c p)" and "fadeIntervalRef st = Some t"
    and "fade_run t acts1" and "fade_run t acts2"
    and "tick_count acts1 = tick_count acts2"
  shows
  "fade_writes (trace (run cfg acts1 st)) =
     fade_writes (trace st) @ expected_writes c (tick_count acts1) \<and>
   fade_writes (trace (run cfg acts2 st)) = fade_writes (trace (run cfg acts1 st)) \<and>
   (acts1 \<noteq> [] \<and> last acts1 = FadeTick t \<and> acts2 \<noteq> [] \<and> last acts2 = FadeTick t \<and>
    tick_count acts1 \<le> remaining c \<longrightarrow>
      volume (audios (run cfg acts1 st) (fd_audio c)) =
        fade_value c (currentStep c + tick_count acts1) \<and>
      volume (audios (run cfg acts2 st) (fd_audio c)) =
        volume (audios (run cfg acts1 st) (fd_audio c)))"
proof -
  have f: "fading t c p st" using assms(1,2) by (simp add: fading_def)
  note S1 = fade_run_summary [OF f assms(3), of cfg]
  note S2 = fade_run_summary [OF f assms(4), of cfg]
  have w: "fade_writes (trace (run cfg acts1 st)) =
     fade_writes (trace st) @ expected_writes c (tick_count acts1)"
    using S1 by blast
  have e: "fade_writes (trace (run cfg acts2 st)) = fade_writes (trace (run cfg acts1 st))"
    using S1 S2 assms(5) by simp
  have v: "acts1 \<noteq> [] \<and> last acts1 = FadeTick t \<and> acts2 \<noteq> [] \<and> last acts2 = FadeTick t \<and>
    tick_count acts1 \<le> remaining c \<longrightarrow>
      volume (audios (run cfg acts1 st) (fd_audio c)) =
        fade_value c (currentStep c + tick_count acts1) \<and>
      volume (audios (run cfg acts2 st) (fd_audio c)) =
        volume (audios (run cfg acts1 st) (fd_audio c))"
    using fade_run_volume [OF f assms(3), of cfg] fade_run_volume [OF f assms(4), of cfg]
      assms(5) by simp
  from w e v show ?thesis by blast
qed

theorem fade_noninterference_witness:
  "timers (run cfg_fade [Play NoThrow] (mounted cfg_fade NoThrow 0)) 0 =
     Some (Interval \<lparr> fd_audio = 1, targetVolume = 1, startVolume = 0, volumeStep = 1 / 50,
                      currentStep = 0, onComplete = None \<rparr> 100) \<and>
   fadeIntervalRef (run cfg_fade [Play NoThrow] (mounted cfg_fade NoThrow 0)) = Some 0 \<and>
   fade_run 0 [FadeTick 0, AdjustVolume 0.3, FadeTick 0] \<and>
   fade_run 0 [AdjustVolume 0.9, FadeTick 0, AdjustVolume 0.1, FadeTick 0] \<and>
   fade_writes (trace (run cfg_fade [AdjustVolume 0.9, FadeTick 0, AdjustVolume 0.1, FadeTick 0]
      (run cfg_fade [Play NoThrow] (mounted cfg_fade NoThrow 0)))) =
   fade_writes (trace (run cfg_fade [FadeTick 0, AdjustVolume 0.3, FadeTick 0]
      (run cfg_fade [Play NoThrow] (mounted cfg_fade NoThrow 0)))) \<and>
   fade_writes (trace (run cfg_fade [FadeTick 0, AdjustVolume 0.3, FadeTick 0]
      (run cfg_fade [Play NoThrow] (mounted cfg_fade NoThrow 0)))) = [(1, 1 / 50), (1, 2 / 50)] \<and>
   volume (audios (run cfg_fade [FadeTick 0, AdjustVolume 0.3, FadeTick 0]
      (run cfg_fade [Play NoThrow] (mounted cfg_fade NoThrow 0))) 1) = 2 / 50"
proof -
  let ?st = "run cfg_fade [Play NoThrow] (mounted cfg_fade NoThrow 0)"
  let ?c = "\<lparr> fd_audio = 1, targetVolume = 1, startVolume = 0, volumeStep = 1 / 50,
                      currentStep = 0, onComplete = None \<rparr>"
  let ?a1 = "[FadeTick 0, AdjustVolume 0.3, FadeTick 0]"
  let ?a2 = "[AdjustVolume 0.9, FadeTick 0, AdjustVolume 0.1, FadeTick 0]"
  have t: "timers ?st 0 = Some (Interval ?c 100)"
    by (simp add: eval_defs prims)
  have f: "fadeIntervalRef ?st = Some 0"
    by (simp add: eval_defs prims)
  have w0: "fade_writes (trace ?st) = []"
    by (simp add: eval_defs prims)
  have r: "fade_run 0 ?a1" "fade_run 0 ?a2" "tick_count ?a1 = tick_count ?a2" by simp_all
  note T = fade_noninterference [OF t f r, of cfg_fade]
  have ew: "expected_writes ?c (tick_count ?a1) = [(1, 1 / 50), (1, 2 / 50)]"
    by (simp add: expected_writes_def remaining_def fade_value_def steps_def clamp01_def
          upt_conv_Cons del: upt_Suc)
  have fv: "fade_value ?c (currentStep ?c + tick_count ?a1) = 2 / 50"
    by (simp add: fade_value_def steps_def clamp01_def)
  have l: "?a1 \<noteq> [] \<and> last ?a1 = FadeTick 0 \<and> ?a2 \<noteq> [] \<and> last ?a2 = FadeTick 0 \<and>
      tick_count ?a1 \<le> remaining ?c"
    by (simp add: remaining_def steps_def)
  from T have "fade_writes (trace (run cfg_fade ?a1 ?st)) =
      fade_writes (trace ?st) @ expected_writes ?c (tick_count ?a1)"
    by blast
  then have w1: "fade_writes (trace (run cfg_fade ?a1 ?st)) = [(1, 1 / 50), (1, 2 / 50)]"
    unfolding w0 ew by (simp only: append_Nil)
  from T have w2: "fade_writes (trace (run cfg_fade ?a2 ?st)) =
      fade_writes (trace (run cfg_fade ?a1 ?st))"
    by blast
  from T l have "volume (audios (run cfg_fade ?a1 ?st) (fd_audio ?c)) =
        fade_value ?c (currentStep ?c + tick_count ?a1)"
    by blast
  then have v: "volume (audios (run cfg_fade ?a1 ?st) 1) = 2 / 50"
    unfolding fv by (simp only: fade.simps)
  from t f r(1,2) w2 w1 v show ?thesis by blast
qed

section \<open>The range of the fader's writes\<close>

lemma fade_value_range:
  "0 \<le> targetVolume c \<Longrightarrow> targetVolume c \<le> 1 \<Longrightarrow> 0 \<le> fade_value c k \<and> fade_value c k \<le> 1"
  by (simp add: fade_value_def)

text \<open>
  Claim C7.  Every volume write of the fader lies within [0,1], whatever volume is
  requested through the options or through \<^verbatim>\<open>adjustVolume\<close>, the final write that
  sets the target included: in every state the hook can reach, from any configuration and
  by any sequence of calls and host events, all writes the fader has made are in range,
  and every live fade timer has a target in range, so that every write it can still make,
  the last one included, is in range.  At the level of the fader: a fade to a target in
  range writes only values in range (the single write of a fade of non-positive duration,
  and every write of a timed fade), and the writes of ticks 1 to 49 are clamped in any case.
\<close>

theorem fader_writes_within_range:
  "fade_writes_in_range (trace (run cfg acts (mounted cfg h r))) \<and>
   (\<forall>t c p. timers (run cfg acts (mounted cfg h r)) t = Some (Interval c p) \<longrightarrow>
      0 \<le> targetVolume c \<and> targetVolume c \<le> 1 \<and>
      (\<forall>k. 0 \<le> fade_value c k \<and> fade_value c k \<le> 1)) \<and>
   (0 \<le> target \<and> target \<le> 1 \<and> fade_writes_in_range (trace st) \<longrightarrow>
      (d \<le> 0 \<longrightarrow> fade_writes_in_range (trace (applyFade a target d cb st))) \<and>
      (0 < d \<longrightarrow>
         (\<forall>n. fade_writes_in_range
                (trace (ticks n (next_timer st) (applyFade a target d cb st)))))) \<and>
   (0 < d \<and> fade_writes_in_range (trace st) \<longrightarrow>
      (\<forall>n. n < 50 \<longrightarrow>
         fade_writes_in_range (trace (ticks n (next_timer st) (applyFade a target d cb st)))))"
proof -
  have A1: "0 \<le> target \<and> target \<le> 1 \<and> fade_writes_in_range (trace st) \<longrightarrow>
      (d \<le> 0 \<longrightarrow> fade_writes_in_range (trace (applyFade a target d cb st)))"
  proof (intro impI)
    assume a: "0 \<le> target \<and> target \<le> 1 \<and> fade_writes_in_range (trace st)" and d: "d \<le> 0"
    have "fade_writes (trace (applyFade a target d cb st)) = fade_writes (trace st) @ [(a, target)]"
      using d by (simp add: applyFade_def run_callback_facts prims)
    then show "fade_writes_in_range (trace (applyFade a target d cb st))"
      using a by (simp add: fade_writes_in_range_def)
  qed
  have A2: "0 \<le> target \<and> target \<le> 1 \<and> fade_writes_in_range (trace st) \<longrightarrow>
      (0 < d \<longrightarrow> (\<forall>n. fade_writes_in_range
                (trace (ticks n (next_timer st) (applyFade a target d cb st)))))"
  proof (intro impI allI)
    fix n
    assume a: "0 \<le> target \<and> target \<le> 1 \<and> fade_writes_in_range (trace st)" and d: "0 < d"
    show "fade_writes_in_range (trace (ticks n (next_timer st) (applyFade a target d cb st)))"
      using a unfolding fade_writes_in_range_def applyFade_ticks(1) [OF d]
      by (auto simp add: list_all_iff simp del: upt_Suc)
  qed
  have A3: "0 < d \<and> fade_writes_in_range (trace st) \<longrightarrow>
      (\<forall>n. n < 50 \<longrightarrow>
         fade_writes_in_range (trace (ticks n (next_timer st) (applyFade a target d cb st))))"
  proof (intro impI allI)
    fix n :: nat
    assume a: "0 < d \<and> fade_writes_in_range (trace st)" and n: "n < 50"
    then have d: "0 < d" by simp
    show "fade_writes_in_range (trace (ticks n (next_timer st) (applyFade a target d cb st)))"
      using a n unfolding fade_writes_in_range_def applyFade_ticks(1) [OF d]
      by (auto simp add: list_all_iff simp del: upt_Suc)
  qed
  have ok: "fade_targets_ok (run cfg acts (mounted cfg h r))"
    by (rule ok_run) (rule ok_mounted)
  have B: "fade_writes_in_range (trace (run cfg acts (mounted cfg h r)))"
    using ok by (simp add: fade_targets_ok_def)
  have C: "\<forall>t c p. timers (run cfg acts (mounted cfg h r)) t = Some (Interval c p) \<longrightarrow>
      0 \<le> targetVolume c \<and> targetVolume c \<le> 1 \<and>
      (\<forall>k. 0 \<le> fade_value c k \<and> fade_value c k \<le> 1)"
  proof (intro allI impI)
    fix t c p assume "timers (run cfg acts (mounted cfg h r)) t = Some (Interval c p)"
    with ok have tv: "0 \<le> targetVolume c \<and> targetVolume c \<le> 1"
      unfolding fade_targets_ok_def by blast
    then show "0 \<le> targetVolume c \<and> targetVolume c \<le> 1 \<and>
      (\<forall>k. 0 \<le> fade_value c k \<and> fade_value c k \<le> 1)"
      using fade_value_range [of c] by blast
  qed
  from A1 A2 have A12: "0 \<le> target \<and> target \<le> 1 \<and> fade_writes_in_range (trace st) \<longrightarrow>
      (d \<le> 0 \<longrightarrow> fade_writes_in_range (trace (applyFade a target d cb st))) \<and>
      (0 < d \<longrightarrow>
         (\<forall>n. fade_writes_in_range
                (trace (ticks n (next_timer st) (applyFade a target d cb st)))))"
    by blast
  from B C A12 A3 show ?thesis by (intro conjI)
qed

theorem fader_writes_within_range_witness:
  "currentVolume (run cfg_loud [Play NoThrow] (mounted cfg_loud NoThrow 0)) = 1.5 \<and>
   timers (run cfg_loud [Play NoThrow] (mounted cfg_loud NoThrow 0)) 0 =
     Some (Interval \<lparr> fd_audio = 0, targetVolume = 1, startVolume = 0, volumeStep = 1 / 50,
                      currentStep = 0, onComplete = None \<rparr> 40) \<and>
   fade_writes_in_range
     (trace (run cfg_loud (Play NoThrow # replicate 50 (FadeTick 0)) (mounted cfg_loud NoThrow 0))) \<and>
   last (fade_writes
     (trace (run cfg_loud (Play NoThrow # replicate 50 (FadeTick 0)) (mounted cfg_loud NoThrow 0)))) =
     (0, 1) \<and>
   length (fade_writes
     (trace (run cfg_loud (Play NoThrow # replicate 50 (FadeTick 0)) (mounted cfg_loud NoThrow 0)))) =
     50 \<and>
   (0::real) \<le> 0.4 \<and> (0.4::real) \<le> 1 \<and> (0::real) < 5 \<and> (7::nat) < 50 \<and>
   fade_writes_in_range (trace (mounted cfg_plain NoThrow 0)) \<and>
   fade_writes_in_range (trace (ticks 7 0 (applyFade 0 0.4 5 None (mounted cfg_plain NoThrow 0)))) \<and>
   fade_writes_in_range (trace (ticks 60 0 (applyFade 0 0.4 5 None (mounted cfg_plain NoThrow 0)))) \<and>
   fade_writes_in_range (trace (applyFade 0 0.4 0 None (mounted cfg_plain NoThrow 0)))"
proof -
  let ?st = "mounted cfg_plain NoThrow 0"
  let ?g = "run cfg_loud [Play NoThrow] (mounted cfg_loud NoThrow 0)"
  let ?c = "\<lparr> fd_audio = 0, targetVolume = 1, startVolume = 0, volumeStep = 1 / 50,
             currentStep = 0, onComplete = None \<rparr>"
  let ?ticks = "replicate 50 (FadeTick 0)"
  have g: "currentVolume ?g = 1.5" "timers ?g 0 = Some (Interval ?c 40)"
    "fadeIntervalRef ?g = Some 0" "fade_writes (trace ?g) = []"
    by (simp_all add: eval_defs prims)
  have e: "run cfg_loud (Play NoThrow # ?ticks) (mounted cfg_loud NoThrow 0) = run cfg_loud ?ticks ?g"
    by simp
  from fader_writes_within_range [where cfg = cfg_loud and acts = "Play NoThrow # ?ticks"
      and h = NoThrow and r = 0]
  have w: "fade_writes_in_range
     (trace (run cfg_loud (Play NoThrow # ?ticks) (mounted cfg_loud NoThrow 0)))"
    by blast
  from fader_writes_within_range [where cfg = cfg_loud and acts = "[Play NoThrow]"
      and h = NoThrow and r = 0] g(2)
  have tv: "0 \<le> targetVolume ?c \<and> targetVolume ?c \<le> 1" by blast
  have "fading 0 ?c 40 ?g" using g by (simp add: fading_def)
  from fade_run_summary [OF this replicate_ticks(1) [of 0 50], of cfg_loud]
  have fw: "fade_writes (trace (run cfg_loud ?ticks ?g)) = expected_writes ?c 50"
    using g(4) by simp
  have el: "last (expected_writes ?c 50) = (0, 1)" "length (expected_writes ?c 50) = 50"
    by (simp_all add: expected_writes_def remaining_def steps_def fade_value_def last_map
          del: upt_Suc)
  have l: "last (fade_writes
     (trace (run cfg_loud (Play NoThrow # ?ticks) (mounted cfg_loud NoThrow 0)))) = (0, 1)"
    and n50: "length (fade_writes
     (trace (run cfg_loud (Play NoThrow # ?ticks) (mounted cfg_loud NoThrow 0)))) = 50"
    unfolding e fw using el by simp_all
  have n: "next_timer ?st = 0" by (simp add: eval_defs prims)
  have r: "(0::real) \<le> 0.4" "(0.4::real) \<le> 1" "(0::real) < 5" "(0::real) \<le> 0" "(7::nat) < 50"
    by simp_all
  have t: "fade_writes_in_range (trace ?st)"
    using fader_writes_within_range [where cfg = cfg_plain and acts = "[]" and h = NoThrow
        and r = 0] by simp
  note T5 = fader_writes_within_range [where target = "0.4" and st = ?st and d = 5 and a = 0
      and cb = None, unfolded n]
  note T0 = fader_writes_within_range [where target = "0.4" and st = ?st and d = 0 and a = 0
      and cb = None, unfolded n]
  from T5 r t have a: "fade_writes_in_range (trace (ticks 7 0 (applyFade 0 0.4 5 None ?st)))"
    and b: "fade_writes_in_range (trace (ticks 60 0 (applyFade 0 0.4 5 None ?st)))"
    by blast+
  from T0 r t have c: "fade_writes_in_range (trace (applyFade 0 0.4 0 None ?st))"
    by blast
  from g(1,2) w l n50 r t a b c show ?thesis by blast
qed

end
